theory Spec2Isabelle
  imports Main "HOL-Library.Monad_Syntax" "HOL-Library.AList"
begin

section \<open>JavaScript values\<close>

text \<open>
  The converter and the registry work on parsed JSON. A value is one of JavaScript's
  primitives, an array or an object given by its property list (the first binding of a
  key is the property's value). A number is a double: \<open>JNum n\<close> is the double whose
  value is the integer \<open>n\<close> (so \<open>n\<close> is an integer that a double holds, as every
  integer up to \<open>2^53\<close> in size is), and there are the two infinities and \<open>NaN\<close>;
  zero and minus zero are one value, which no operation of the code tells apart.
  Fractional numbers are outside the model: token counts and timestamps are whole, and
  the sum of whole doubles is whole. A string is the list of its code units, those
  below 256.
\<close>

datatype jsval =
    JUndef
  | JNull
  | JBool bool
  | JNum int
  | JInf
  | JNegInf
  | JNaN
  | JStr string
  | JArr "jsval list"
  | JObj "(string \<times> jsval) list"

text \<open>Truthiness, as \<open>if (v)\<close>, \<open>!v\<close> and \<open>a || b\<close> test it.\<close>

fun truthy :: "jsval \<Rightarrow> bool" where
  "truthy JUndef = False"
| "truthy JNull = False"
| "truthy (JBool b) = b"
| "truthy (JNum n) = (n \<noteq> 0)"
| "truthy JInf = True"
| "truthy JNegInf = True"
| "truthy JNaN = False"
| "truthy (JStr s) = (s \<noteq> [])"
| "truthy (JArr xs) = True"
| "truthy (JObj kvs) = True"

fun nullish :: "jsval \<Rightarrow> bool" where
  "nullish JUndef = True"
| "nullish JNull = True"
| "nullish v = False"

definition js_or :: "jsval \<Rightarrow> jsval \<Rightarrow> jsval" where
  "js_or a b = (if truthy a then a else b)"

text \<open>
  \<open>js_prop v k\<close> is the read \<open>v.k\<close> on a receiver that is neither \<open>undefined\<close> nor
  \<open>null\<close>. None of the property names the code reads is a method or a built-in
  property of a string, number, boolean or array, so on those the read is \<open>undefined\<close>.
  \<open>js_get\<close> is the plain read, which throws a TypeError (\<open>None\<close>) on \<open>undefined\<close> and
  \<open>null\<close>; \<open>js_opt\<close> is the optional read \<open>v?.k\<close>.
\<close>

fun js_prop :: "jsval \<Rightarrow> string \<Rightarrow> jsval" where
  "js_prop (JObj kvs) k = (case map_of kvs k of Some v \<Rightarrow> v | None \<Rightarrow> JUndef)"
| "js_prop v k = JUndef"

definition js_get :: "jsval \<Rightarrow> string \<Rightarrow> jsval option" where
  "js_get v k = (if nullish v then None else Some (js_prop v k))"

definition js_opt :: "jsval \<Rightarrow> string \<Rightarrow> jsval" where
  "js_opt v k = (if nullish v then JUndef else js_prop v k)"

text \<open>\<open>v[0]\<close> on a receiver that is neither \<open>undefined\<close> nor \<open>null\<close>, and \<open>v?.[0]\<close>.\<close>

fun index0 :: "jsval \<Rightarrow> jsval" where
  "index0 (JArr xs) = (case xs of [] \<Rightarrow> JUndef | x # rest \<Rightarrow> x)"
| "index0 (JStr s) = (case s of [] \<Rightarrow> JUndef | c # rest \<Rightarrow> JStr [c])"
| "index0 (JObj kvs) = js_prop (JObj kvs) ''0''"
| "index0 v = JUndef"

definition js_opt_index0 :: "jsval \<Rightarrow> jsval" where
  "js_opt_index0 v = (if nullish v then JUndef else index0 v)"

text \<open>Property assignment \<open>o.k = v\<close> on an object: overwrite in place, or append.\<close>

fun js_set :: "jsval \<Rightarrow> string \<Rightarrow> jsval \<Rightarrow> jsval" where
  "js_set (JObj kvs) k v = JObj (AList.update k v kvs)"
| "js_set o' k v = o'"

subsection \<open>Numbers\<close>

text \<open>
  The arithmetic of doubles on whole numbers. A double holds 53 significant bits:
  \<open>shift_of a\<close> is the number of low bits of \<open>a\<close> that do not fit, and \<open>dbl_round n\<close> is
  the whole number nearest to \<open>n\<close> that fits, a tie going to the even significand.
  \<open>num_of_int n\<close> is the number that an exact result \<open>n\<close> is rounded to, an infinity
  from \<open>2^1024\<close> on.
\<close>

function shift_of :: "int \<Rightarrow> nat" where
  "shift_of a = (if a < 2 ^ 53 then 0 else Suc (shift_of (a div 2)))"
  by pat_completeness auto
termination
  by (relation "measure nat") auto

declare shift_of.simps [simp del]

definition dbl_round :: "int \<Rightarrow> int" where
  "dbl_round n =
     (let a = \<bar>n\<bar>;
          k = shift_of a;
          q = a div 2 ^ k;
          r = a mod 2 ^ k;
          q' = (if 2 ^ k < 2 * r \<or> (2 * r = 2 ^ k \<and> odd q) then q + 1 else q)
      in sgn n * (q' * 2 ^ k))"

definition num_of_int :: "int \<Rightarrow> jsval" where
  "num_of_int n =
     (let d = dbl_round n in
      if 2 ^ 1024 \<le> d then JInf else if d \<le> - (2 ^ 1024) then JNegInf else JNum d)"

text \<open>The sum of two numbers.\<close>

fun num_add :: "jsval \<Rightarrow> jsval \<Rightarrow> jsval" where
  "num_add (JNum m) (JNum n) = num_of_int (m + n)"
| "num_add (JNum m) JInf = JInf"
| "num_add (JNum m) JNegInf = JNegInf"
| "num_add JInf (JNum n) = JInf"
| "num_add JInf JInf = JInf"
| "num_add JNegInf (JNum n) = JNegInf"
| "num_add JNegInf JNegInf = JNegInf"
| "num_add x y = JNaN"

subsection \<open>String conversion and addition\<close>

definition digit_char :: "int \<Rightarrow> char" where
  "digit_char n = ''0123456789'' ! nat (n mod 10)"

function digits_of :: "int \<Rightarrow> string" where
  "digits_of n =
     (if n < 10 then [digit_char n] else digits_of (n div 10) @ [digit_char (n mod 10)])"
  by pat_completeness auto
termination
  by (relation "measure nat") auto

declare digits_of.simps [simp del]

text \<open>
  \<open>Number.prototype.toString\<close> on a whole number. Below \<open>2^53\<close> the digits are those of
  the number. From there on they are the fewest digits, followed by zeros, that read
  back as the same double: \<open>shortest x j\<close> looks for the greatest power of ten
  \<open>10^i\<close>, \<open>i \<le> j\<close>, one of whose two multiples around \<open>x\<close> reads back as \<open>x\<close>, taking
  the nearer one if both do and the one with the even digit if they are as near. With
  more than 21 digits the number is printed with an exponent.
\<close>

fun shortest :: "int \<Rightarrow> nat \<Rightarrow> int" where
  "shortest x 0 = x"
| "shortest x (Suc j) =
     (let p = 10 ^ Suc j; lo = (x div p) * p; hi = lo + p in
      if dbl_round lo = x \<and> dbl_round hi = x then
        (if x - lo < hi - x then lo
         else if hi - x < x - lo then hi
         else if even (lo div p) then lo else hi)
      else if dbl_round lo = x then lo
      else if dbl_round hi = x then hi
      else shortest x j)"

definition exponent_form :: "string \<Rightarrow> string" where
  "exponent_form ds =
     (let s = rev (dropWhile (\<lambda>c. c = CHR ''0'') (rev ds)) in
      (if length s = 1 then s else hd s # CHR ''.'' # tl s)
        @ ''e+'' @ digits_of (int (length ds) - 1))"

definition show_nat :: "int \<Rightarrow> string" where
  "show_nat a =
     (if a < 2 ^ 53 then digits_of a
      else (let ds = digits_of (shortest a (length (digits_of a))) in
            if length ds \<le> 21 then ds else exponent_form ds))"

definition show_int :: "int \<Rightarrow> string" where
  "show_int i = (if i < 0 then CHR ''-'' # show_nat (- i) else show_nat i)"

fun js_join :: "string \<Rightarrow> string list \<Rightarrow> string" where
  "js_join sep [] = []"
| "js_join sep [x] = x"
| "js_join sep (x # y # ys) = x @ sep @ js_join sep (y # ys)"

text \<open>
  \<open>String(v)\<close>, as template literals and \<open>Array.prototype.join\<close> apply it; \<open>None\<close> is
  the TypeError it throws. An array is its elements joined by commas, \<open>undefined\<close> and
  \<open>null\<close> elements giving the empty string. An object of parsed JSON is converted by
  the \<open>toString\<close> it inherits, unless it has a property of that name: the property's
  value is no function, \<open>valueOf\<close> (its own or the inherited one) gives no primitive
  either, and the conversion throws.
\<close>

fun js_to_string :: "jsval \<Rightarrow> string option" where
  "js_to_string JUndef = Some ''undefined''"
| "js_to_string JNull = Some ''null''"
| "js_to_string (JBool b) = Some (if b then ''true'' else ''false'')"
| "js_to_string (JNum n) = Some (show_int n)"
| "js_to_string JInf = Some ''Infinity''"
| "js_to_string JNegInf = Some ''-Infinity''"
| "js_to_string JNaN = Some ''NaN''"
| "js_to_string (JStr s) = Some s"
| "js_to_string (JArr xs) =
     map_option (js_join '','')
       (those (map (\<lambda>x. if nullish x then Some [] else js_to_string x) xs))"
| "js_to_string (JObj kvs) =
     (if map_of kvs ''toString'' \<noteq> None then None else Some ''[object Object]'')"

text \<open>\<open>xs.join(sep)\<close>.\<close>

definition array_join :: "jsval list \<Rightarrow> string \<Rightarrow> string option" where
  "array_join xs sep =
     map_option (js_join sep)
       (those (map (\<lambda>x. if nullish x then Some [] else js_to_string x) xs))"

text \<open>
  The conversion of an operand of \<open>+\<close> to a primitive: an array or object becomes its
  string, for parsed JSON under the same condition as above.
\<close>

fun to_primitive :: "jsval \<Rightarrow> jsval option" where
  "to_primitive (JArr xs) = map_option JStr (js_to_string (JArr xs))"
| "to_primitive (JObj kvs) = map_option JStr (js_to_string (JObj kvs))"
| "to_primitive v = Some v"

text \<open>\<open>Number(v)\<close> on the primitives that are not strings (the only ones \<open>+\<close> applies it to).\<close>

fun to_number :: "jsval \<Rightarrow> jsval" where
  "to_number JNull = JNum 0"
| "to_number (JBool b) = JNum (if b then 1 else 0)"
| "to_number (JNum n) = JNum n"
| "to_number JInf = JInf"
| "to_number JNegInf = JNegInf"
| "to_number v = JNaN"

fun is_str :: "jsval \<Rightarrow> bool" where
  "is_str (JStr s) = True"
| "is_str v = False"

text \<open>
  The operator \<open>a + b\<close>: both operands are converted to primitives, the left one first;
  the result is the concatenation when either is a string, else the sum.
\<close>

definition js_add :: "jsval \<Rightarrow> jsval \<Rightarrow> jsval option" where
  "js_add a b = do {
     x \<leftarrow> to_primitive a;
     y \<leftarrow> to_primitive b;
     if is_str x \<or> is_str y then do {
       s \<leftarrow> js_to_string x;
       t \<leftarrow> js_to_string y;
       Some (JStr (s @ t))
     }
     else Some (num_add (to_number x) (to_number y))
   }"

section \<open>Format converter: usage accounting\<close>

text \<open>
  The converter's only field besides its collaborators is the usage cache
  \<open>streamUsage\<close> (\<open>null\<close> when empty). The logger is taken to return; of a call to
  it the model keeps what evaluating its argument can throw.
\<close>

record converter =
  streamUsage :: jsval

text \<open>
  The loop of \<open>_parseUsage\<close> over \<open>usage.candidatesTokensDetails\<close>; it throws when
  the addition does.
\<close>

fun completionImageTokens :: "jsval list \<Rightarrow> jsval \<Rightarrow> jsval option" where
  "completionImageTokens [] acc = Some acc"
| "completionImageTokens (d # ds) acc =
     (if js_opt d ''modality'' = JStr ''IMAGE'' then do {
        acc' \<leftarrow> js_add acc (js_or (js_prop d ''tokenCount'') (JNum 0));
        completionImageTokens ds acc'
      }
      else completionImageTokens ds acc)"

text \<open>
  \<open>_parseUsage\<close>. It throws on a response that is \<open>undefined\<close> or \<open>null\<close>, and
  when one of its three sums does.
\<close>

definition parseUsage :: "jsval \<Rightarrow> jsval option" where
  "parseUsage googleResponse = do {
     usageMetadata \<leftarrow> js_get googleResponse ''usageMetadata'';
     let usage = js_or usageMetadata (JObj []);
     let inputTokens = js_or (js_prop usage ''promptTokenCount'') (JNum 0);
     let toolPromptTokens = js_or (js_prop usage ''toolUsePromptTokenCount'') (JNum 0);
     let completionTextTokens = js_or (js_prop usage ''candidatesTokenCount'') (JNum 0);
     let reasoningTokens = js_or (js_prop usage ''thoughtsTokenCount'') (JNum 0);
     imageTokens \<leftarrow>
       (case js_prop usage ''candidatesTokensDetails'' of
          JArr ds \<Rightarrow> completionImageTokens ds (JNum 0)
        | other \<Rightarrow> Some (JNum 0));
     promptTokens \<leftarrow> js_add inputTokens toolPromptTokens;
     totalCompletionTokens \<leftarrow> js_add completionTextTokens reasoningTokens;
     let totalTokens = js_or (js_opt usageMetadata ''totalTokenCount'') (JNum 0);
     Some (JObj
       [(''completion_tokens'', totalCompletionTokens),
        (''completion_tokens_details'', JObj
           [(''image_tokens'', imageTokens),
            (''output_text_tokens'', completionTextTokens),
            (''reasoning_tokens'', reasoningTokens)]),
        (''prompt_tokens'', promptTokens),
        (''prompt_tokens_details'', JObj
           [(''text_tokens'', inputTokens),
            (''tool_tokens'', toolPromptTokens)]),
        (''total_tokens'', totalTokens)])
   }"

text \<open>
  \<open>_generateRequestId\<close> reads the clock (\<open>Date.now()\<close>, a whole number of
  milliseconds) and draws a random base-36 string; both are supplied by the caller of
  the model. Within the range of times a \<open>Date\<close> has, the seconds
  \<open>Math.floor(Date.now() / 1000)\<close> are \<open>clock div 1000\<close>. The readings of the clock
  within one call of the converter are taken to be one.
\<close>

definition generateRequestId :: "int \<Rightarrow> string \<Rightarrow> string" where
  "generateRequestId clock rnd = show_int clock @ ''_'' @ rnd"

section \<open>Format converter: non-streaming responses\<close>

fun is_array :: "jsval \<Rightarrow> bool" where
  "is_array (JArr xs) = True"
| "is_array v = False"

fun elems :: "jsval \<Rightarrow> jsval list" where
  "elems (JArr xs) = xs"
| "elems v = []"

text \<open>
  The template literal \<open>`![Generated Image](data:${image.mimeType};base64,${image.data})`\<close>.
\<close>

definition imageMarkdown :: "jsval \<Rightarrow> string option" where
  "imageMarkdown inlineData = do {
     mimeType \<leftarrow> js_to_string (js_prop inlineData ''mimeType'');
     data \<leftarrow> js_to_string (js_prop inlineData ''data'');
     Some (''![Generated Image](data:'' @ mimeType @ '';base64,'' @ data @ '')'')
   }"

text \<open>
  \<open>s += v\<close> on a string \<open>s\<close>: the string of \<open>v\<close> is appended. (The operator converts
  \<open>v\<close> to a primitive and that to a string, which for parsed JSON is the string of
  \<open>v\<close>, thrown errors included.)
\<close>

definition string_append :: "string \<Rightarrow> jsval \<Rightarrow> string option" where
  "string_append s v = map_option (\<lambda>t. s @ t) (js_to_string v)"

text \<open>
  The loop of \<open>convertGoogleToOpenAINonStream\<close> over \<open>candidate.content.parts\<close>,
  carrying \<open>content\<close> and \<open>reasoning_content\<close>. Reading \<open>part.thought\<close> throws on a
  part that is \<open>null\<close>, and so does a conversion to a string that fails.
\<close>

fun nonStreamParts :: "jsval list \<Rightarrow> string \<times> string \<Rightarrow> (string \<times> string) option" where
  "nonStreamParts [] acc = Some acc"
| "nonStreamParts (part # ps) (content, reasoning_content) = do {
     thought \<leftarrow> js_get part ''thought'';
     if thought = JBool True then do {
       reasoning_content' \<leftarrow>
         string_append reasoning_content (js_or (js_prop part ''text'') (JStr []));
       nonStreamParts ps (content, reasoning_content')
     }
     else if truthy (js_prop part ''text'') then do {
       content' \<leftarrow> string_append content (js_prop part ''text'');
       nonStreamParts ps (content', reasoning_content)
     }
     else if truthy (js_prop part ''inlineData'') then do {
       markdown \<leftarrow> imageMarkdown (js_prop part ''inlineData'');
       nonStreamParts ps (content @ markdown, reasoning_content)
     }
     else nonStreamParts ps (content, reasoning_content)
   }"

definition convertGoogleToOpenAINonStream ::
  "int \<Rightarrow> string \<Rightarrow> jsval \<Rightarrow> string \<Rightarrow> jsval option" where
  "convertGoogleToOpenAINonStream clock rnd googleResponse modelName = do {
     candidates \<leftarrow> js_get googleResponse ''candidates'';
     let candidate = js_opt_index0 candidates;
     if \<not> truthy candidate then
       Some (JObj
         [(''choices'', JArr [JObj
             [(''finish_reason'', JStr ''stop''),
              (''index'', JNum 0),
              (''message'', JObj [(''content'', JStr []), (''role'', JStr ''assistant'')])]]),
          (''created'', JNum (clock div 1000)),
          (''id'', JStr (''chatcmpl-'' @ generateRequestId clock rnd)),
          (''model'', JStr modelName),
          (''object'', JStr ''chat.completion''),
          (''usage'', JObj
             [(''completion_tokens'', JNum 0),
              (''prompt_tokens'', JNum 0),
              (''total_tokens'', JNum 0)])])
     else do {
       (content, reasoning_content) \<leftarrow>
         (if truthy (js_prop candidate ''content'')
             \<and> is_array (js_prop (js_prop candidate ''content'') ''parts'')
          then nonStreamParts (elems (js_prop (js_prop candidate ''content'') ''parts'')) ([], [])
          else Some ([], []));
       let message = JObj ([(''content'', JStr content), (''role'', JStr ''assistant'')]
          @ (if reasoning_content \<noteq> [] then [(''reasoning_content'', JStr reasoning_content)]
             else []));
       usage \<leftarrow> parseUsage googleResponse;
       Some (JObj
         [(''choices'', JArr [JObj
             [(''finish_reason'', js_or (js_prop candidate ''finishReason'') (JStr ''stop'')),
              (''index'', JNum 0),
              (''message'', message)]]),
          (''created'', JNum (clock div 1000)),
          (''id'', JStr (''chatcmpl-'' @ generateRequestId clock rnd)),
          (''model'', JStr modelName),
          (''object'', JStr ''chat.completion''),
          (''usage'', usage)])
     }
   }"

text \<open>Paths into a completion object: \<open>r.choices[0]\<close> and \<open>r.choices[0].message\<close>.\<close>

definition choice0 :: "jsval \<Rightarrow> jsval" where
  "choice0 r = index0 (js_prop r ''choices'')"

definition message0 :: "jsval \<Rightarrow> jsval" where
  "message0 r = js_prop (choice0 r) ''message''"

section \<open>Notions used to state the properties\<close>

definition finish_reason_of :: "jsval \<Rightarrow> jsval" where
  "finish_reason_of r = js_prop (choice0 r) ''finish_reason''"

text \<open>
  A count as the remote service sends it: a number, or left out (\<open>undefined\<close>, \<open>null\<close>).
  \<open>count_of\<close> is its value, a count left out being zero.
\<close>

fun is_count :: "jsval \<Rightarrow> bool" where
  "is_count (JNum n) = True"
| "is_count JUndef = True"
| "is_count JNull = True"
| "is_count v = False"

fun count_of :: "jsval \<Rightarrow> int" where
  "count_of (JNum n) = n"
| "count_of v = 0"

definition is_image_detail :: "jsval \<Rightarrow> bool" where
  "is_image_detail d = (js_opt d ''modality'' = JStr ''IMAGE'')"

text \<open>The values that are numbers.\<close>

fun is_num :: "jsval \<Rightarrow> bool" where
  "is_num (JNum n) = True"
| "is_num JInf = True"
| "is_num JNegInf = True"
| "is_num JNaN = True"
| "is_num v = False"

text \<open>The token counts of the IMAGE entries of a list of details, in order.\<close>

definition image_counts :: "jsval list \<Rightarrow> int list" where
  "image_counts ds = map (\<lambda>d. count_of (js_prop d ''tokenCount'')) (filter is_image_detail ds)"

text \<open>The sum of whole numbers as doubles add them up, from zero and from left to right.\<close>

definition double_sum :: "int list \<Rightarrow> jsval" where
  "double_sum ns = foldl (\<lambda>acc n. num_add acc (JNum n)) (JNum 0) ns"

definition counted_details :: "jsval list \<Rightarrow> bool" where
  "counted_details ds =
     list_all (\<lambda>d. \<not> is_image_detail d \<or> is_count (js_prop d ''tokenCount'')) ds"

section \<open>Format converter: streaming responses\<close>

text \<open>
  The translation state the caller passes in (\<open>streamState\<close>, which may be \<open>null\<close>):
  the response id and creation time once assigned, and the two flags.
\<close>

record stream_state =
  stream_id :: jsval
  created :: jsval
  roleSent :: bool
  inThought :: bool

text \<open>
  What \<open>translateGoogleToOpenAIStream\<close> returns: \<open>null\<close>, the terminal marker
  \<open>"data: [DONE]\n\n"\<close>, or the concatenation of the frames
  \<open>"data: " + JSON.stringify(c) + "\n\n"\<close> of a list of chunk objects \<open>c\<close>.
\<close>

datatype stream_out = NoOutput | DoneMarker | Frames "jsval list"

definition is_space :: "char \<Rightarrow> bool" where
  "is_space c = (c \<in> set [CHR '' '', CHR 0x09, CHR 0x0A, CHR 0x0B, CHR 0x0C, CHR 0x0D, CHR 0xA0])"

definition js_trim :: "string \<Rightarrow> string" where
  "js_trim s = rev (dropWhile is_space (rev (dropWhile is_space s)))"

definition starts_with :: "string \<Rightarrow> string \<Rightarrow> bool" where
  "starts_with s p = (take (length p) s = p)"

definition jsonString_of :: "string \<Rightarrow> string" where
  "jsonString_of googleChunk =
     (if starts_with googleChunk ''data: '' then js_trim (drop 6 googleChunk) else googleChunk)"

definition openaiChunk :: "jsval \<Rightarrow> jsval \<Rightarrow> jsval \<Rightarrow> jsval \<Rightarrow> string \<Rightarrow> jsval" where
  "openaiChunk delta finish_reason createdv streamId modelName =
     JObj [(''choices'', JArr [JObj
              [(''delta'', delta), (''finish_reason'', finish_reason), (''index'', JNum 0)]]),
           (''created'', createdv),
           (''id'', streamId),
           (''model'', JStr modelName),
           (''object'', JStr ''chat.completion.chunk'')]"

text \<open>
  The body of the loop over \<open>candidate.content.parts\<close>: the delta of the part, if it has
  content, and the state after it. It throws on a part that is \<open>null\<close> and when the
  template literal of an image does.
\<close>

definition partDelta ::
  "jsval \<Rightarrow> stream_state option \<Rightarrow> (jsval option \<times> stream_state option) option" where
  "partDelta part streamState = do {
     thought \<leftarrow> js_get part ''thought'';
     let text = js_prop part ''text'';
     (delta, st, hasContent) \<leftarrow>
       (if thought = JBool True then
          (if truthy text
           then Some (JObj [(''reasoning_content'', text)],
                      map_option (\<lambda>s. s\<lparr>inThought := True\<rparr>) streamState, True)
           else Some (JObj [], streamState, False))
        else if truthy text then Some (JObj [(''content'', text)], streamState, True)
        else if truthy (js_prop part ''inlineData'') then do {
          markdown \<leftarrow> imageMarkdown (js_prop part ''inlineData'');
          Some (JObj [(''content'', JStr markdown)], streamState, True)
        }
        else Some (JObj [], streamState, False));
     if hasContent then
       (case st of
          Some s \<Rightarrow>
            if \<not> roleSent s
            then Some (Some (js_set delta ''role'' (JStr ''assistant'')),
                       Some (s\<lparr>roleSent := True\<rparr>))
            else Some (Some delta, st)
        | None \<Rightarrow> Some (Some delta, st))
     else Some (None, st)
   }"

fun streamParts ::
  "jsval \<Rightarrow> jsval \<Rightarrow> string \<Rightarrow> jsval list \<Rightarrow> stream_state option \<Rightarrow> jsval list
   \<Rightarrow> (jsval list \<times> stream_state option) option" where
  "streamParts createdv streamId modelName [] streamState chunksToSend =
     Some (chunksToSend, streamState)"
| "streamParts createdv streamId modelName (part # ps) streamState chunksToSend = do {
     (delta, st) \<leftarrow> partDelta part streamState;
     (case delta of
        Some d \<Rightarrow>
          streamParts createdv streamId modelName ps st
            (chunksToSend @ [openaiChunk d JNull createdv streamId modelName])
      | None \<Rightarrow> streamParts createdv streamId modelName ps st chunksToSend)
   }"

text \<open>
  The translation of a parsed fragment: everything in
  \<open>translateGoogleToOpenAIStream\<close> after \<open>JSON.parse\<close>, which starts by giving the
  response its id and creation time if the state has none (\<open>assignStreamId\<close>). \<open>this\<close> is the converter,
  whose usage cache the call may fill and empty. The readings of the clock within one
  call are taken to be one. A call that throws is \<open>None\<close>; what it had written to the
  state before is not kept.
\<close>

definition assignStreamId :: "int \<Rightarrow> string \<Rightarrow> stream_state option \<Rightarrow> stream_state option" where
  "assignStreamId clock rnd streamState =
     (case streamState of
        Some s \<Rightarrow>
          if \<not> truthy (stream_id s)
          then Some (s\<lparr>stream_id := JStr (''chatcmpl-'' @ generateRequestId clock rnd),
                        created := JNum (clock div 1000)\<rparr>)
          else Some s
      | None \<Rightarrow> None)"

text \<open>The statement that caches the usage data of a response that carries some.\<close>

definition cacheUsage :: "converter \<Rightarrow> jsval \<Rightarrow> converter option" where
  "cacheUsage this googleResponse = do {
     usageMetadata \<leftarrow> js_get googleResponse ''usageMetadata'';
     if truthy usageMetadata
     then map_option (\<lambda>u. this\<lparr>streamUsage := u\<rparr>) (parseUsage googleResponse)
     else Some this
   }"

definition translateGoogleResponse ::
  "int \<Rightarrow> string \<Rightarrow> converter \<Rightarrow> jsval \<Rightarrow> string \<Rightarrow> stream_state option
   \<Rightarrow> (stream_out \<times> converter \<times> stream_state option) option" where
  "translateGoogleResponse clock rnd this googleResponse modelName streamState =
     (let st0 = assignStreamId clock rnd streamState;
        streamId =
          (case st0 of Some s \<Rightarrow> stream_id s
           | None \<Rightarrow> JStr (''chatcmpl-'' @ generateRequestId clock rnd));
        createdv = (case st0 of Some s \<Rightarrow> created s | None \<Rightarrow> JNum (clock div 1000))
      in do {
        this1 \<leftarrow> cacheUsage this googleResponse;
        let candidate = js_opt_index0 (js_prop googleResponse ''candidates'');
        if \<not> truthy candidate then
          (if truthy (js_prop googleResponse ''promptFeedback'') then do {
             blockReason \<leftarrow>
               js_to_string (js_prop (js_prop googleResponse ''promptFeedback'') ''blockReason'');
             let errorText =
               ''[ProxySystem Error] Request blocked due to safety settings. Finish Reason: ''
               @ blockReason;
             Some (Frames [openaiChunk (JObj [(''content'', JStr errorText)]) (JStr ''stop'')
                              createdv streamId modelName],
                   this1, st0)
           }
           else Some (NoOutput, this1, st0))
        else do {
          (chunks, st1) \<leftarrow>
            (if truthy (js_prop candidate ''content'')
                \<and> is_array (js_prop (js_prop candidate ''content'') ''parts'')
             then streamParts createdv streamId modelName
                    (elems (js_prop (js_prop candidate ''content'') ''parts'')) st0 []
             else Some ([], st0));
          let (chunksToSend, this2) =
            (if truthy (js_prop candidate ''finishReason'') then
               (let finalResponse =
                  js_set (openaiChunk (JObj []) (js_prop candidate ''finishReason'')
                            createdv streamId modelName) ''usage'' JNull
                in if truthy (streamUsage this1)
                   then (chunks @ [js_set finalResponse ''usage'' (streamUsage this1)],
                         this1\<lparr>streamUsage := JNull\<rparr>)
                   else (chunks @ [finalResponse], this1))
             else (chunks, this1));
          Some (if chunksToSend \<noteq> [] then Frames chunksToSend else NoOutput, this2, st1)
        }
      })"

text \<open>
  \<open>translateGoogleToOpenAIStream\<close>. \<open>JSON.parse\<close> is the platform's parser, taken as a
  parameter: \<open>None\<close> is its SyntaxError, which the function catches.
\<close>

definition translateGoogleToOpenAIStream ::
  "(string \<Rightarrow> jsval option) \<Rightarrow> int \<Rightarrow> string \<Rightarrow> converter \<Rightarrow> string \<Rightarrow> string
   \<Rightarrow> stream_state option \<Rightarrow> (stream_out \<times> converter \<times> stream_state option) option" where
  "translateGoogleToOpenAIStream JSON_parse clock rnd this googleChunk modelName streamState =
     (if googleChunk = [] \<or> js_trim googleChunk = [] then Some (NoOutput, this, streamState)
      else if jsonString_of googleChunk = ''[DONE]'' then Some (DoneMarker, this, streamState)
      else (case JSON_parse (jsonString_of googleChunk) of
              None \<Rightarrow> Some (NoOutput, this, streamState)
            | Some googleResponse \<Rightarrow>
                translateGoogleResponse clock rnd this googleResponse modelName streamState))"

section \<open>Notions used to state the streaming properties\<close>

text \<open>
  A fragment is parseable to \<open>r\<close> when the translator gets as far as \<open>JSON.parse\<close> and
  the parser returns \<open>r\<close>.
\<close>

definition decodes :: "(string \<Rightarrow> jsval option) \<Rightarrow> string \<Rightarrow> jsval \<Rightarrow> bool" where
  "decodes JSON_parse googleChunk r =
     (googleChunk \<noteq> [] \<and> js_trim googleChunk \<noteq> []
      \<and> jsonString_of googleChunk \<noteq> ''[DONE]''
      \<and> JSON_parse (jsonString_of googleChunk) = Some r)"

definition candidate_of :: "jsval \<Rightarrow> jsval" where
  "candidate_of r = js_opt_index0 (js_prop r ''candidates'')"

definition parts_of :: "jsval \<Rightarrow> jsval list" where
  "parts_of r =
     (if truthy (js_prop (candidate_of r) ''content'')
      then elems (js_prop (js_prop (candidate_of r) ''content'') ''parts'')
      else [])"

text \<open>A part bears content when it is a thought with text, or has text or inline data.\<close>

definition content_bearing :: "jsval \<Rightarrow> bool" where
  "content_bearing part =
     (if js_prop part ''thought'' = JBool True then truthy (js_prop part ''text'')
      else truthy (js_prop part ''text'') \<or> truthy (js_prop part ''inlineData''))"

definition content_parts :: "jsval \<Rightarrow> jsval list" where
  "content_parts r = filter content_bearing (parts_of r)"

definition carries_usage :: "jsval \<Rightarrow> bool" where
  "carries_usage r = truthy (js_prop r ''usageMetadata'')"

text \<open>The usage metadata of a response, if it carries any, is such that \<open>_parseUsage\<close> returns.\<close>

definition usage_ok :: "jsval \<Rightarrow> bool" where
  "usage_ok r = (carries_usage r \<longrightarrow> parseUsage r \<noteq> None)"

text \<open>
  A part the loop does not throw on: it is not \<open>null\<close>, and if it is an image (no
  thought, no text, inline data) the type and data of the image convert to strings.
\<close>

definition image_part :: "jsval \<Rightarrow> bool" where
  "image_part part =
     (js_prop part ''thought'' \<noteq> JBool True \<and> \<not> truthy (js_prop part ''text'')
      \<and> truthy (js_prop part ''inlineData''))"

definition part_ok :: "jsval \<Rightarrow> bool" where
  "part_ok part =
     (\<not> nullish part
      \<and> (image_part part \<longrightarrow> imageMarkdown (js_prop part ''inlineData'') \<noteq> None))"

text \<open>A candidate fragment: it has a candidate, and the loop throws on none of its parts.\<close>

definition candidate_fragment :: "jsval \<Rightarrow> bool" where
  "candidate_fragment r =
     (truthy (candidate_of r) \<and> list_all part_ok (parts_of r) \<and> usage_ok r)"

text \<open>
  A quiet fragment: a response with no candidate and no safety-block notice (one that
  only carries usage metadata, say). A stream fragment is one or the other.
\<close>

definition quiet_fragment :: "jsval \<Rightarrow> bool" where
  "quiet_fragment r =
     (\<not> nullish r \<and> \<not> truthy (candidate_of r) \<and> \<not> truthy (js_prop r ''promptFeedback'')
      \<and> usage_ok r)"

definition stream_fragment :: "jsval \<Rightarrow> bool" where
  "stream_fragment r = (candidate_fragment r \<or> quiet_fragment r)"

definition finishing :: "jsval \<Rightarrow> bool" where
  "finishing r = truthy (js_prop (candidate_of r) ''finishReason'')"

text \<open>The usage record of the last fragment that carried usage metadata, \<open>u\<close> if none did.\<close>

fun latest_usage :: "jsval \<Rightarrow> jsval list \<Rightarrow> jsval" where
  "latest_usage u [] = u"
| "latest_usage u (r # rs) =
     latest_usage
       (if carries_usage r then (case parseUsage r of Some v \<Rightarrow> v | None \<Rightarrow> u) else u) rs"

definition delta_of :: "jsval \<Rightarrow> jsval" where
  "delta_of c = js_prop (choice0 c) ''delta''"

definition has_field :: "jsval \<Rightarrow> string \<Rightarrow> bool" where
  "has_field v k = (case v of JObj kvs \<Rightarrow> map_of kvs k \<noteq> None | other \<Rightarrow> False)"

definition has_role :: "jsval \<Rightarrow> bool" where
  "has_role c = has_field (delta_of c) ''role''"

text \<open>A content chunk: no finish reason, and a delta with content or reasoning content.\<close>

definition content_chunk :: "jsval \<Rightarrow> bool" where
  "content_chunk c =
     (finish_reason_of c = JNull
      \<and> (has_field (delta_of c) ''content'' \<or> has_field (delta_of c) ''reasoning_content''))"

text \<open>
  Which of \<open>n\<close> chunks in a row carry the role, given whether it was sent before: the
  first one if not, none otherwise.
\<close>

definition role_flags :: "bool \<Rightarrow> nat \<Rightarrow> bool list" where
  "role_flags sent n =
     (if sent then replicate n False
      else (case n of 0 \<Rightarrow> [] | Suc k \<Rightarrow> True # replicate k False))"

text \<open>
  Feeding the fragments of one response to the translator, one call each (with the
  clock and random string of that call), the converter and the translation state
  threaded through; the result is the list of all chunks emitted.
\<close>

fun frames :: "stream_out \<Rightarrow> jsval list" where
  "frames (Frames cs) = cs"
| "frames out = []"

fun feed ::
  "(string \<Rightarrow> jsval option) \<Rightarrow> string \<Rightarrow> converter \<Rightarrow> stream_state option
   \<Rightarrow> (int \<times> string \<times> string) list
   \<Rightarrow> (jsval list \<times> converter \<times> stream_state option) option" where
  "feed JSON_parse modelName this streamState [] = Some ([], this, streamState)"
| "feed JSON_parse modelName this streamState ((clock, rnd, googleChunk) # rest) = do {
     (out, this1, st1) \<leftarrow>
       translateGoogleToOpenAIStream JSON_parse clock rnd this googleChunk modelName streamState;
     (cs, this2, st2) \<leftarrow> feed JSON_parse modelName this1 st1 rest;
     Some (frames out @ cs, this2, st2)
   }"

definition chunk_of :: "int \<times> string \<times> string \<Rightarrow> string" where
  "chunk_of call = snd (snd call)"

text \<open>
  A call of the translator on a fragment that parses to the stream fragment \<open>r\<close>.
\<close>

definition fragment_call :: "(string \<Rightarrow> jsval option) \<Rightarrow> int \<times> string \<times> string \<Rightarrow> jsval \<Rightarrow> bool" where
  "fragment_call JSON_parse call r = (decodes JSON_parse (chunk_of call) r \<and> stream_fragment r)"

text \<open>
  For examples: a parser given by the finite table of the texts it is applied to, each
  with the value \<open>JSON.parse\<close> returns for it; any other text is a SyntaxError.
\<close>

definition parse_table :: "(string \<times> jsval) list \<Rightarrow> string \<Rightarrow> jsval option" where
  "parse_table table jsonString = map_of table jsonString"

definition emitted_chunks :: "(jsval list \<times> converter \<times> stream_state option) option \<Rightarrow> jsval list" where
  "emitted_chunks result = (case result of Some (cs, this, st) \<Rightarrow> cs | None \<Rightarrow> [])"

definition has_usage_field :: "jsval \<Rightarrow> bool" where
  "has_usage_field c = has_field c ''usage''"

text \<open>The usage cache is \<open>null\<close> or holds a usage record (an object, so truthy).\<close>

definition cache_ok :: "jsval \<Rightarrow> bool" where
  "cache_ok u = (u = JNull \<or> truthy u)"

section \<open>Format converter: outbound requests\<close>

text \<open>
  The flags of the server system the converter reads.
\<close>

record server_system =
  forceThinking :: bool
  forceWebSearch :: bool
  forceUrlContext :: bool

text \<open>
  \<open>split_at_first pat s\<close> splits \<open>s\<close> around the first occurrence of \<open>pat\<close>.
\<close>

fun split_at_first :: "string \<Rightarrow> string \<Rightarrow> (string \<times> string) option" where
  "split_at_first pat [] = (if pat = [] then Some ([], []) else None)"
| "split_at_first pat (c # cs) =
     (if starts_with (c # cs) pat then Some ([], drop (length pat) (c # cs))
      else map_option (\<lambda>(before, after). (c # before, after)) (split_at_first pat cs))"

definition is_line_terminator :: "char \<Rightarrow> bool" where
  "is_line_terminator c = (c = CHR 0x0A \<or> c = CHR 0x0D)"

text \<open>
  The match of \<open>/^data:(image\/.*?);base64,(.*)$/\<close>: the two groups. The dot matches
  no line terminator, and the first group is lazy, so it ends at the first
  \<open>;base64,\<close>.
\<close>

definition match_data_uri :: "string \<Rightarrow> (string \<times> string) option" where
  "match_data_uri dataUrl =
     (if starts_with dataUrl ''data:image/''
         \<and> \<not> list_ex is_line_terminator (drop 11 dataUrl)
      then map_option (\<lambda>(subtype, data). (''image/'' @ subtype, data))
             (split_at_first '';base64,'' (drop 11 dataUrl))
      else None)"

text \<open>The test \<open>/^https?:\/\//\<close>.\<close>

definition is_http_url :: "string \<Rightarrow> bool" where
  "is_http_url dataUrl = (starts_with dataUrl ''http://'' \<or> starts_with dataUrl ''https://'')"

text \<open>
  The loop over the parts of a message whose content is an array. Downloading an image
  is the world's part: \<open>axios_get url\<close> is \<open>None\<close> when the request or the handling of
  its response throws (the code catches that), else the body in base64 and the
  \<open>content-type\<close> header; \<open>mime_lookup\<close> is \<open>mime.lookup\<close>.
\<close>

fun convertParts ::
  "(string \<Rightarrow> (string \<times> jsval) option) \<Rightarrow> (string \<Rightarrow> jsval) \<Rightarrow> jsval list \<Rightarrow> jsval list
   \<Rightarrow> jsval list option" where
  "convertParts axios_get mime_lookup [] googleParts = Some googleParts"
| "convertParts axios_get mime_lookup (part # ps) googleParts = do {
     type \<leftarrow> js_get part ''type'';
     if type = JStr ''text'' then
       convertParts axios_get mime_lookup ps
         (googleParts @ [JObj [(''text'', js_prop part ''text'')]])
     else if type = JStr ''image_url'' \<and> truthy (js_prop part ''image_url'') then
       (case js_prop (js_prop part ''image_url'') ''url'' of
          JStr dataUrl \<Rightarrow>
            (case match_data_uri dataUrl of
               Some (mimeType, data) \<Rightarrow>
                 convertParts axios_get mime_lookup ps
                   (googleParts @ [JObj [(''inlineData'',
                      JObj [(''data'', JStr data), (''mimeType'', JStr mimeType)])]])
             | None \<Rightarrow>
                 if is_http_url dataUrl then
                   (case axios_get dataUrl of
                      Some (base64Data, contentType) \<Rightarrow>
                        (let mimeType =
                           (if \<not> truthy contentType
                               \<or> contentType = JStr ''application/octet-stream''
                            then js_or (mime_lookup dataUrl) (JStr ''image/jpeg'')
                            else contentType)
                         in convertParts axios_get mime_lookup ps
                              (googleParts @ [JObj [(''inlineData'',
                                 JObj [(''data'', JStr base64Data), (''mimeType'', mimeType)])]]))
                    | None \<Rightarrow>
                        convertParts axios_get mime_lookup ps
                          (googleParts @ [JObj [(''text'',
                             JStr (''[System Note: Failed to load image from '' @ dataUrl @ '']''))]]))
                 else convertParts axios_get mime_lookup ps googleParts)
        | other \<Rightarrow> None)
     else convertParts axios_get mime_lookup ps googleParts
   }"

text \<open>The loop over the conversation messages.\<close>

fun convertMessages ::
  "(string \<Rightarrow> (string \<times> jsval) option) \<Rightarrow> (string \<Rightarrow> jsval) \<Rightarrow> jsval list \<Rightarrow> jsval list
   \<Rightarrow> jsval list option" where
  "convertMessages axios_get mime_lookup [] googleContents = Some googleContents"
| "convertMessages axios_get mime_lookup (message # ms) googleContents = do {
     googleParts \<leftarrow>
       (case js_prop message ''content'' of
          JStr text \<Rightarrow> Some [JObj [(''text'', JStr text)]]
        | JArr parts \<Rightarrow> convertParts axios_get mime_lookup parts []
        | other \<Rightarrow> Some []);
     convertMessages axios_get mime_lookup ms
       (googleContents @ [JObj
          [(''parts'', JArr googleParts),
           (''role'', JStr (if js_prop message ''role'' = JStr ''assistant''
                            then ''model'' else ''user''))]])
   }"

text \<open>
  \<open>messages.filter(msg => p(msg.role))\<close>: reading \<open>msg.role\<close> throws on a message that
  is \<open>null\<close>.
\<close>

fun filter_role :: "(jsval \<Rightarrow> bool) \<Rightarrow> jsval list \<Rightarrow> jsval list option" where
  "filter_role keep [] = Some []"
| "filter_role keep (msg # ms) = do {
     role \<leftarrow> js_get msg ''role'';
     rest \<leftarrow> filter_role keep ms;
     Some (if keep role then msg # rest else rest)
   }"

text \<open>
  The thinking configuration (\<open>null\<close> when there is none), from the request body, its
  \<open>extra_body\<close> and the server's force-thinking flag. The message logged for a truthy
  effort holds the effort in a template literal, so the resolution throws when the
  effort does not convert to a string.
\<close>

definition rawThinkingConfig :: "jsval \<Rightarrow> jsval \<Rightarrow> jsval" where
  "rawThinkingConfig openaiBody extraBody =
     js_or (js_or (js_or (js_or (js_or
       (js_opt (js_prop extraBody ''google'') ''thinking_config'')
       (js_opt (js_prop extraBody ''google'') ''thinkingConfig''))
       (js_prop extraBody ''thinkingConfig''))
       (js_prop extraBody ''thinking_config''))
       (js_prop openaiBody ''thinkingConfig''))
       (js_prop openaiBody ''thinking_config'')"

definition resolveThinkingConfig :: "server_system \<Rightarrow> jsval \<Rightarrow> jsval option" where
  "resolveThinkingConfig serverSystem openaiBody =
     (let extraBody = js_or (js_prop openaiBody ''extra_body'') (JObj []);
          raw = rawThinkingConfig openaiBody extraBody;
          thinkingConfig0 =
            (if truthy raw then
               (if js_prop raw ''include_thoughts'' \<noteq> JUndef
                then js_set (JObj []) ''includeThoughts'' (js_prop raw ''include_thoughts'')
                else if js_prop raw ''includeThoughts'' \<noteq> JUndef
                then js_set (JObj []) ''includeThoughts'' (js_prop raw ''includeThoughts'')
                else JObj [])
             else JNull)
      in do {
        thinkingConfig1 \<leftarrow>
          (if \<not> truthy thinkingConfig0 then
             (let effort = js_or (js_prop openaiBody ''reasoning_effort'')
                                 (js_prop extraBody ''reasoning_effort'')
              in if truthy effort then do {
                   logged \<leftarrow> js_to_string effort;
                   Some (JObj [(''includeThoughts'', JBool True)])
                 }
                 else Some thinkingConfig0)
           else Some thinkingConfig0);
        Some (if forceThinking serverSystem \<and> \<not> truthy thinkingConfig1
              then JObj [(''includeThoughts'', JBool True)]
              else thinkingConfig1)
      })"

text \<open>
  \<open>tools.some(t => t.k)\<close>: it stops at the first tool whose property is truthy, and
  throws on a tool that is \<open>null\<close> before that.
\<close>

fun tools_some :: "string \<Rightarrow> jsval list \<Rightarrow> bool option" where
  "tools_some k [] = Some False"
| "tools_some k (t # ts) = do {
     v \<leftarrow> js_get t k;
     if truthy v then Some True else tools_some k ts
   }"

text \<open>
  One forced tool: unless some tool of the request has the property \<open>k\<close>, push
  \<open>{k: {}}\<close>. \<open>tools.some\<close> is not a function when \<open>tools\<close> is not an array.
\<close>

definition forceTool :: "string \<Rightarrow> jsval \<Rightarrow> jsval option" where
  "forceTool k googleRequest =
     (case js_prop googleRequest ''tools'' of
        JArr tools \<Rightarrow> do {
          has \<leftarrow> tools_some k tools;
          Some (if \<not> has then js_set googleRequest ''tools'' (JArr (tools @ [JObj [(k, JObj [])]]))
                else googleRequest)
        }
      | other \<Rightarrow> None)"

text \<open>The block that forces web search and URL context, on the request built so far.\<close>

definition injectForcedTools :: "server_system \<Rightarrow> jsval \<Rightarrow> jsval option" where
  "injectForcedTools serverSystem googleRequest =
     (if forceWebSearch serverSystem \<or> forceUrlContext serverSystem then do {
        let req0 = (if \<not> truthy (js_prop googleRequest ''tools'')
                    then js_set googleRequest ''tools'' (JArr []) else googleRequest);
        req1 \<leftarrow> (if forceWebSearch serverSystem then forceTool ''googleSearch'' req0 else Some req0);
        (if forceUrlContext serverSystem then forceTool ''urlContext'' req1 else Some req1)
      }
      else Some googleRequest)"

definition safetySettings :: jsval where
  "safetySettings = JArr
     [JObj [(''category'', JStr ''HARM_CATEGORY_HARASSMENT''), (''threshold'', JStr ''BLOCK_NONE'')],
      JObj [(''category'', JStr ''HARM_CATEGORY_HATE_SPEECH''), (''threshold'', JStr ''BLOCK_NONE'')],
      JObj [(''category'', JStr ''HARM_CATEGORY_SEXUALLY_EXPLICIT''),
            (''threshold'', JStr ''BLOCK_NONE'')],
      JObj [(''category'', JStr ''HARM_CATEGORY_DANGEROUS_CONTENT''),
            (''threshold'', JStr ''BLOCK_NONE'')]]"

text \<open>
  The request with its \<open>contents\<close>, system instruction and \<open>generationConfig\<close>,
  as \<open>translateOpenAIToGoogle\<close> has built it before it forces the tools, given the
  thinking configuration resolved.
\<close>

definition buildGoogleRequest :: "jsval \<Rightarrow> jsval list \<Rightarrow> jsval \<Rightarrow> jsval \<Rightarrow> jsval" where
  "buildGoogleRequest openaiBody googleContents systemInstruction thinkingConfig =
     (let googleRequest = JObj
        ([(''contents'', JArr googleContents)]
         @ (if truthy systemInstruction
            then [(''systemInstruction'',
                   JObj [(''parts'', js_prop systemInstruction ''parts'')])]
            else []));
        generationConfig = JObj
          [(''maxOutputTokens'', js_prop openaiBody ''max_tokens''),
           (''stopSequences'', js_prop openaiBody ''stop''),
           (''temperature'', js_prop openaiBody ''temperature''),
           (''topK'', js_prop openaiBody ''top_k''),
           (''topP'', js_prop openaiBody ''top_p'')];
        generationConfig1 =
          (if truthy thinkingConfig then js_set generationConfig ''thinkingConfig'' thinkingConfig
           else generationConfig)
      in js_set googleRequest ''generationConfig'' generationConfig1)"

text \<open>
  \<open>translateOpenAIToGoogle\<close>. It first empties the usage cache; the result is the
  converter after the call and the request, or \<open>None\<close> when the call throws.
\<close>

definition translateOpenAIToGoogle ::
  "(string \<Rightarrow> (string \<times> jsval) option) \<Rightarrow> (string \<Rightarrow> jsval) \<Rightarrow> server_system \<Rightarrow> converter
   \<Rightarrow> jsval \<Rightarrow> converter \<times> jsval option" where
  "translateOpenAIToGoogle axios_get mime_lookup serverSystem this openaiBody =
     (this\<lparr>streamUsage := JNull\<rparr>,
      do {
        messages \<leftarrow> js_get openaiBody ''messages'';
        msgs \<leftarrow> (case messages of JArr ms \<Rightarrow> Some ms | other \<Rightarrow> None);
        systemMessages \<leftarrow> filter_role (\<lambda>role. role = JStr ''system'') msgs;
        systemInstruction \<leftarrow>
          (if systemMessages \<noteq> [] then do {
             systemContent \<leftarrow>
               array_join (map (\<lambda>msg. js_prop msg ''content'') systemMessages) [CHR 0x0A];
             Some (JObj [(''parts'', JArr [JObj [(''text'', JStr systemContent)]]),
                         (''role'', JStr ''system'')])
           }
           else Some JNull);
        conversationMessages \<leftarrow> filter_role (\<lambda>role. role \<noteq> JStr ''system'') msgs;
        googleContents \<leftarrow> convertMessages axios_get mime_lookup conversationMessages [];
        thinkingConfig \<leftarrow> resolveThinkingConfig serverSystem openaiBody;
        googleRequest \<leftarrow>
          injectForcedTools serverSystem
            (buildGoogleRequest openaiBody googleContents systemInstruction thinkingConfig);
        Some (js_set googleRequest ''safetySettings'' safetySettings)
      })"

section \<open>Notions used to state the outbound properties\<close>

definition text_only :: "jsval list \<Rightarrow> bool" where
  "text_only ms = list_all (\<lambda>m. is_str (js_prop m ''content'')) ms"

text \<open>A value converts to a string: \<open>String(v)\<close> does not throw.\<close>

definition prints :: "jsval \<Rightarrow> bool" where
  "prints v = (js_to_string v \<noteq> None)"

definition non_system :: "jsval \<Rightarrow> bool" where
  "non_system m = (js_prop m ''role'' \<noteq> JStr ''system'')"

text \<open>The role of a message in the remote dialect.\<close>

definition google_role :: "jsval \<Rightarrow> string" where
  "google_role m = (if js_prop m ''role'' = JStr ''assistant'' then ''model'' else ''user'')"

text \<open>The \<open>contents\<close> entry of a message with text content.\<close>

definition text_entry :: "jsval \<Rightarrow> jsval" where
  "text_entry m = JObj [(''parts'', JArr [JObj [(''text'', js_prop m ''content'')]]),
                        (''role'', JStr (google_role m))]"

text \<open>
  The places a request can carry an explicit thinking configuration, in the order the
  converter consults them.
\<close>

definition thinking_config_spellings :: "jsval \<Rightarrow> jsval list" where
  "thinking_config_spellings openaiBody =
     (let extraBody = js_or (js_prop openaiBody ''extra_body'') (JObj []) in
      [js_opt (js_prop extraBody ''google'') ''thinking_config'',
       js_opt (js_prop extraBody ''google'') ''thinkingConfig'',
       js_prop extraBody ''thinkingConfig'',
       js_prop extraBody ''thinking_config'',
       js_prop openaiBody ''thinkingConfig'',
       js_prop openaiBody ''thinking_config''])"

text \<open>The thinking configuration an explicit object determines.\<close>

definition explicit_thinking :: "jsval \<Rightarrow> jsval" where
  "explicit_thinking raw =
     (if js_prop raw ''include_thoughts'' \<noteq> JUndef
      then JObj [(''includeThoughts'', js_prop raw ''include_thoughts'')]
      else if js_prop raw ''includeThoughts'' \<noteq> JUndef
      then JObj [(''includeThoughts'', js_prop raw ''includeThoughts'')]
      else JObj [])"

definition reasoning_effort :: "jsval \<Rightarrow> jsval" where
  "reasoning_effort openaiBody =
     js_or (js_prop openaiBody ''reasoning_effort'')
           (js_prop (js_or (js_prop openaiBody ''extra_body'') (JObj [])) ''reasoning_effort'')"

text \<open>The \<open>thinkingConfig\<close> of a request's \<open>generationConfig\<close>, if it has one.\<close>

definition attached_thinking :: "jsval \<Rightarrow> jsval option" where
  "attached_thinking req =
     (if has_field (js_prop req ''generationConfig'') ''thinkingConfig''
      then Some (js_prop (js_prop req ''generationConfig'') ''thinkingConfig'')
      else None)"

text \<open>The number of tools of a request that have the property \<open>k\<close> (as the code tests it).\<close>

definition tool_count :: "string \<Rightarrow> jsval \<Rightarrow> nat" where
  "tool_count k req =
     length (filter (\<lambda>t. truthy (js_prop t k)) (elems (js_prop req ''tools'')))"

definition count_tools :: "string \<Rightarrow> jsval list \<Rightarrow> nat" where
  "count_tools k ts = length (filter (\<lambda>t. truthy (js_prop t k)) ts)"

section \<open>Message queue\<close>

text \<open>
  Modelled from the spec: the class \<open>MessageQueue\<close> (\<open>src/utils/messageQueue.js\<close>), which
  the registry requires and which is not among the sources. A queue is an ordered buffer
  of events that is open or closed; \<open>enqueue\<close> appends an event if the queue is open and
  does nothing otherwise; \<open>close\<close> closes it, and is idempotent. Tasks suspended in
  \<open>dequeue\<close> are not modelled.
\<close>

record message_queue =
  items :: "jsval list"
  closed :: bool

definition new_queue :: message_queue where
  "new_queue = \<lparr>items = [], closed = False\<rparr>"

definition enqueue :: "message_queue \<Rightarrow> jsval \<Rightarrow> message_queue" where
  "enqueue q event = (if closed q then q else q\<lparr>items := items q @ [event]\<rparr>)"

definition close_queue :: "message_queue \<Rightarrow> message_queue" where
  "close_queue q = q\<lparr>closed := True\<rparr>"

section \<open>Connection registry\<close>

text \<open>
  The registry and the part of the world it acts on. Websockets, queue objects and timers
  are identified by numbers. \<open>connections\<close> is the set of websockets in insertion
  order; \<open>messageQueues\<close> is the map from request id to queue object, in insertion
  order; \<open>reconnectGraceTimer\<close> is the timer handle (\<open>null\<close> is \<open>None\<close>). \<open>heap\<close>
  holds the queue objects, which request handlers share with the registry. \<open>timers\<close>
  are the armed timers of the runtime; \<open>emitted\<close> are the events emitted so far.
  \<open>cancelled\<close> and \<open>fired\<close> record history: the timers \<open>clearTimeout\<close> was called
  on, and the timers whose callback has run. What listeners do on an emitted event is
  left out, and the logger is taken to return.
\<close>

datatype notification = ConnectionAdded nat | ConnectionRemoved nat | ConnectionLost

record registry =
  connections :: "nat list"
  messageQueues :: "(string \<times> nat) list"
  reconnectGraceTimer :: "nat option"
  heap :: "nat \<Rightarrow> message_queue option"
  timers :: "nat set"
  next_timer :: nat
  next_queue :: nat
  emitted :: "notification list"
  cancelled :: "nat set"
  fired :: "nat set"

definition new_registry :: registry where
  "new_registry =
     \<lparr>connections = [], messageQueues = [], reconnectGraceTimer = None,
      heap = (\<lambda>a. None), timers = {}, next_timer = 0, next_queue = 0, emitted = [],
      cancelled = {}, fired = {}\<rparr>"

text \<open>
  \<open>clearTimeout(t)\<close>: it disarms \<open>t\<close> if \<open>t\<close> is armed, and has no effect on the runtime
  otherwise; the call is recorded.
\<close>

definition clearTimeout :: "nat \<Rightarrow> registry \<Rightarrow> registry" where
  "clearTimeout t r = r\<lparr>timers := timers r - {t}, cancelled := insert t (cancelled r)\<rparr>"

text \<open>\<open>setTimeout(callback, 5000)\<close>: it arms a new timer and returns its handle.\<close>

definition setTimeout :: "registry \<Rightarrow> nat \<times> registry" where
  "setTimeout r =
     (next_timer r, r\<lparr>timers := insert (next_timer r) (timers r), next_timer := Suc (next_timer r)\<rparr>)"

text \<open>
  \<open>addConnection(websocket, clientInfo)\<close>. The message it logs holds
  \<open>clientInfo.address\<close> in a template literal. When evaluating that throws
  (\<open>clientInfo\<close> is \<open>undefined\<close> or \<open>null\<close>, or the address does not convert to a
  string), \<open>addConnection\<close> throws after it has cancelled the timer and added the
  websocket, and before it registers the handlers of the websocket and emits
  \<open>connectionAdded\<close>. The result is the registry after the call, and whether the call
  returned or threw.
\<close>

datatype completion = Returned | Threw

definition addConnection :: "registry \<Rightarrow> nat \<Rightarrow> jsval \<Rightarrow> registry \<times> completion" where
  "addConnection r websocket clientInfo =
     (let r1 = (case reconnectGraceTimer r of
                  Some t \<Rightarrow> (clearTimeout t r)\<lparr>reconnectGraceTimer := None\<rparr>
                | None \<Rightarrow> r);
          r2 = r1\<lparr>connections := (if websocket \<in> set (connections r1) then connections r1
                                   else connections r1 @ [websocket])\<rparr>
      in case js_get clientInfo ''address'' \<bind> js_to_string of
           None \<Rightarrow> (r2, Threw)
         | Some logged \<Rightarrow> (r2\<lparr>emitted := emitted r2 @ [ConnectionAdded websocket]\<rparr>, Returned))"

definition removeConnection :: "registry \<Rightarrow> nat \<Rightarrow> registry" where
  "removeConnection r websocket =
     (let r1 = r\<lparr>connections := removeAll websocket (connections r)\<rparr>;
          (t, r2) = setTimeout r1
      in r2\<lparr>reconnectGraceTimer := Some t,
            emitted := emitted r2 @ [ConnectionRemoved websocket]\<rparr>)"

text \<open>\<open>messageQueues.forEach(queue => queue.close())\<close>, on the heap.\<close>

fun close_all :: "(string \<times> nat) list \<Rightarrow> (nat \<Rightarrow> message_queue option) \<Rightarrow> (nat \<Rightarrow> message_queue option)" where
  "close_all [] h = h"
| "close_all ((requestId, a) # rest) h = close_all rest (h(a := map_option close_queue (h a)))"

text \<open>
  The callback of the grace timer \<open>t\<close>, which the runtime runs when \<open>t\<close> is armed and
  its time is up; the timer is no longer armed then.
\<close>

definition graceTimeout :: "registry \<Rightarrow> nat \<Rightarrow> registry" where
  "graceTimeout r t =
     r\<lparr>timers := timers r - {t},
       fired := insert t (fired r),
       heap := close_all (messageQueues r) (heap r),
       messageQueues := [],
       emitted := emitted r @ [ConnectionLost]\<rparr>"

text \<open>
  \<open>messageQueues.get(requestId)\<close>. The keys are the request ids given to
  \<open>createMessageQueue\<close>, which are strings; a value that is not a string equals none.
\<close>

definition queue_of :: "registry \<Rightarrow> jsval \<Rightarrow> nat option" where
  "queue_of r requestId =
     (case requestId of JStr s \<Rightarrow> map_of (messageQueues r) s | other \<Rightarrow> None)"

text \<open>
  \<open>_routeMessage\<close>. The warning for an unknown event type holds the type in a template
  literal, so that branch throws when the type does not convert to a string.
\<close>

definition routeMessage :: "registry \<Rightarrow> jsval \<Rightarrow> nat \<Rightarrow> registry option" where
  "routeMessage r message queue =
     (let event_type = js_prop message ''event_type'' in
      if event_type = JStr ''response_headers'' \<or> event_type = JStr ''chunk''
         \<or> event_type = JStr ''error''
      then Some (r\<lparr>heap := (heap r)(queue :=
                   map_option (\<lambda>q. enqueue q message) (heap r queue))\<rparr>)
      else if event_type = JStr ''stream_close''
      then Some (r\<lparr>heap := (heap r)(queue := map_option
                   (\<lambda>q. enqueue q (JObj [(''type'', JStr ''STREAM_END'')])) (heap r queue))\<rparr>)
      else do {
        logged \<leftarrow> js_to_string event_type;
        Some r
      })"

text \<open>
  The body of the \<open>try\<close> in \<open>_handleIncomingMessage\<close>: \<open>None\<close> when it throws, which
  is \<open>JSON.parse\<close>'s SyntaxError, the TypeError of reading \<open>request_id\<close> of \<open>null\<close>, or
  that of a template literal in a warning (which holds the request id when no queue
  has it). No branch changes the registry before it throws.
\<close>

definition handleIncomingMessage_try ::
  "(string \<Rightarrow> jsval option) \<Rightarrow> registry \<Rightarrow> string \<Rightarrow> registry option" where
  "handleIncomingMessage_try JSON_parse r messageData = do {
     parsedMessage \<leftarrow> JSON_parse messageData;
     requestId \<leftarrow> js_get parsedMessage ''request_id'';
     if \<not> truthy requestId then Some r
     else (case queue_of r requestId of
             Some queue \<Rightarrow> routeMessage r parsedMessage queue
           | None \<Rightarrow> do {
               logged \<leftarrow> js_to_string requestId;
               Some r
             })
   }"

text \<open>
  \<open>_handleIncomingMessage\<close>: the \<open>catch\<close> logs and returns. The result is \<open>None\<close> if
  the method throws, which no branch does.
\<close>

definition handleIncomingMessage ::
  "(string \<Rightarrow> jsval option) \<Rightarrow> registry \<Rightarrow> string \<Rightarrow> registry option" where
  "handleIncomingMessage JSON_parse r messageData =
     (case handleIncomingMessage_try JSON_parse r messageData of
        Some r' \<Rightarrow> Some r'
      | None \<Rightarrow> Some r)"

definition hasActiveConnections :: "registry \<Rightarrow> bool" where
  "hasActiveConnections r = (0 < length (connections r))"

definition getFirstConnection :: "registry \<Rightarrow> nat option" where
  "getFirstConnection r = (case connections r of [] \<Rightarrow> None | websocket # rest \<Rightarrow> Some websocket)"

definition createMessageQueue :: "registry \<Rightarrow> string \<Rightarrow> nat \<times> registry" where
  "createMessageQueue r requestId =
     (next_queue r,
      r\<lparr>heap := (heap r)(next_queue r \<mapsto> new_queue),
        next_queue := Suc (next_queue r),
        messageQueues := AList.update requestId (next_queue r) (messageQueues r)\<rparr>)"

definition removeMessageQueue :: "registry \<Rightarrow> string \<Rightarrow> registry" where
  "removeMessageQueue r requestId =
     (case map_of (messageQueues r) requestId of
        Some queue \<Rightarrow>
          r\<lparr>heap := (heap r)(queue := map_option close_queue (heap r queue)),
            messageQueues := AList.delete requestId (messageQueues r)\<rparr>
      | None \<Rightarrow> r)"

section \<open>The registry's steps\<close>

text \<open>For examples: the client info of a connection from the local host.\<close>

definition local_client :: jsval where
  "local_client = JObj [(''address'', JStr ''::1'')]"

text \<open>
  What can happen to the registry: a new websocket connects, with the client info the
  server passes; a connected websocket closes, or delivers a message; an armed timer
  fires; a request handler creates or removes a queue. \<open>fire\<close> is \<open>None\<close> when the event
  cannot happen in the state, and when \<open>addConnection\<close> throws: such a run is followed
  no further.
\<close>

datatype event =
    Connect nat jsval
  | Disconnect nat
  | Incoming nat string
  | Timeout nat
  | CreateQueue string
  | RemoveQueue string

fun fire :: "(string \<Rightarrow> jsval option) \<Rightarrow> registry \<Rightarrow> event \<Rightarrow> registry option" where
  "fire JSON_parse r (Connect websocket clientInfo) =
     (if websocket \<in> set (connections r) then None
      else (case addConnection r websocket clientInfo of
              (r', Returned) \<Rightarrow> Some r'
            | (r', Threw) \<Rightarrow> None))"
| "fire JSON_parse r (Disconnect websocket) =
     (if websocket \<in> set (connections r) then Some (removeConnection r websocket) else None)"
| "fire JSON_parse r (Incoming websocket messageData) =
     (if websocket \<in> set (connections r) then handleIncomingMessage JSON_parse r messageData
      else None)"
| "fire JSON_parse r (Timeout t) =
     (if t \<in> timers r then Some (graceTimeout r t) else None)"
| "fire JSON_parse r (CreateQueue requestId) = Some (snd (createMessageQueue r requestId))"
| "fire JSON_parse r (RemoveQueue requestId) = Some (removeMessageQueue r requestId)"

fun run :: "(string \<Rightarrow> jsval option) \<Rightarrow> registry \<Rightarrow> event list \<Rightarrow> registry option" where
  "run JSON_parse r [] = Some r"
| "run JSON_parse r (e # es) =
     (case fire JSON_parse r e of Some r' \<Rightarrow> run JSON_parse r' es | None \<Rightarrow> None)"

section \<open>Properties of numbers\<close>

lemma shift_of_small: "a < 2 ^ 53 \<Longrightarrow> shift_of a = 0"
  by (simp add: shift_of.simps)

lemma dbl_round_small: "\<bar>n\<bar> < 2 ^ 53 \<Longrightarrow> dbl_round n = n"
  by (simp add: dbl_round_def shift_of_small Let_def mult_sgn_abs)

lemma num_of_int_small:
  assumes "\<bar>n\<bar> < 2 ^ 53"
  shows "num_of_int n = JNum n"
proof -
  have "(2::int) ^ 53 \<le> 2 ^ 1024"
    by (rule power_increasing) simp_all
  then have "\<not> 2 ^ 1024 \<le> n" and "\<not> n \<le> - (2 ^ 1024)"
    using assms by linarith+
  then show ?thesis
    by (simp only: num_of_int_def dbl_round_small [OF assms] Let_def if_False)
qed

lemma is_num_num_of_int [simp]: "is_num (num_of_int n)"
  by (simp add: num_of_int_def Let_def)

lemma is_num_num_add [simp]: "is_num (num_add x y)"
  by (cases x; cases y) simp_all

lemma double_sum_exact:
  assumes "list_all (\<lambda>n. 0 \<le> n) ns" and "a + sum_list ns < 2 ^ 53" and "0 \<le> a"
  shows "foldl (\<lambda>acc n. num_add acc (JNum n)) (JNum a) ns = JNum (a + sum_list ns)"
  using assms
proof (induction ns arbitrary: a)
  case Nil
  then show ?case by simp
next
  case (Cons n ns)
  have nonneg: "0 \<le> n" "list_all (\<lambda>n. 0 \<le> n) ns"
    using Cons.prems(1) by simp_all
  have "0 \<le> sum_list ns"
    using nonneg(2) by (induction ns) simp_all
  then have small: "\<bar>a + n\<bar> < 2 ^ 53"
    using Cons.prems(2,3) nonneg(1) by simp
  have "foldl (\<lambda>acc n. num_add acc (JNum n)) (JNum (a + n)) ns = JNum ((a + n) + sum_list ns)"
    using Cons.prems(2,3) nonneg by (intro Cons.IH) (simp_all add: add.assoc)
  then show ?case
    by (simp add: num_of_int_small [OF small] add.assoc)
qed

section \<open>Properties of usage accounting\<close>

lemma js_add_nums:
  "is_num a \<Longrightarrow> is_num b \<Longrightarrow> js_add a b = Some (num_add a b)"
  by (cases a; cases b) (simp_all add: js_add_def)

lemma js_add_counts:
  "is_count a \<Longrightarrow> is_count b \<Longrightarrow>
   js_add (js_or a (JNum 0)) (js_or b (JNum 0)) = Some (num_of_int (count_of a + count_of b))"
  by (cases a; cases b) (auto simp: js_add_def js_or_def)

lemma js_add_acc_count:
  "is_num acc \<Longrightarrow> is_count b \<Longrightarrow>
   js_add acc (js_or b (JNum 0)) = Some (num_add acc (JNum (count_of b)))"
  by (cases b) (auto simp: js_add_nums js_or_def)

lemma completionImageTokens_sum:
  "counted_details ds \<Longrightarrow> is_num acc \<Longrightarrow>
   completionImageTokens ds acc
     = Some (foldl (\<lambda>acc n. num_add acc (JNum n)) acc (image_counts ds))"
proof (induction ds arbitrary: acc)
  case Nil
  then show ?case by (simp add: image_counts_def)
next
  case (Cons d ds)
  have rest: "counted_details ds"
    using Cons.prems(1) by (simp add: counted_details_def)
  show ?case
  proof (cases "is_image_detail d")
    case True
    then have "is_count (js_prop d ''tokenCount'')"
      using Cons.prems(1) by (simp add: counted_details_def)
    then have step: "js_add acc (js_or (js_prop d ''tokenCount'') (JNum 0))
        = Some (num_add acc (JNum (count_of (js_prop d ''tokenCount''))))"
      using Cons.prems(2) by (simp add: js_add_acc_count)
    show ?thesis
      using True Cons.IH [OF rest, of "num_add acc (JNum (count_of (js_prop d ''tokenCount'')))"]
      by (simp add: step is_image_detail_def image_counts_def)
  next
    case False
    then show ?thesis
      using Cons.IH [OF rest Cons.prems(2)]
      by (simp add: is_image_detail_def image_counts_def)
  qed
qed

lemma image_tokens_of_details:
  "counted_details (elems v) \<Longrightarrow>
   (case v of JArr ds \<Rightarrow> completionImageTokens ds (JNum 0) | other \<Rightarrow> Some (JNum 0))
     = Some (double_sum (image_counts (elems v)))"
  by (cases v) (simp_all add: completionImageTokens_sum double_sum_def image_counts_def)

text \<open>
  C6, as the code has it. For a response that carries usage metadata whose counts are
  whole numbers (or left out): \<open>prompt_tokens\<close> is \<open>promptTokenCount +
  toolUsePromptTokenCount\<close> and \<open>completion_tokens\<close> is \<open>candidatesTokenCount +
  thoughtsTokenCount\<close>, each sum rounded to a double as JavaScript's addition does; the
  image-token count is the sum of \<open>tokenCount\<close> over the IMAGE entries of
  \<open>candidatesTokensDetails\<close>, added up entry by entry in that arithmetic, and appears
  in \<open>completion_tokens_details.image_tokens\<close> only: \<open>total_tokens\<close> is the remote
  \<open>totalTokenCount\<close> as it came, and neither sum contains the image count. Below
  \<open>2^53\<close> a sum is rounded to itself, and so is the image-token count when no count is
  negative.
\<close>

theorem parseUsage_accounting:
  assumes um: "js_get googleResponse ''usageMetadata'' = Some um" "truthy um"
    and p: "is_count (js_prop um ''promptTokenCount'')"
    and t: "is_count (js_prop um ''toolUsePromptTokenCount'')"
    and c: "is_count (js_prop um ''candidatesTokenCount'')"
    and r: "is_count (js_prop um ''thoughtsTokenCount'')"
    and d: "counted_details (elems (js_prop um ''candidatesTokensDetails''))"
  shows "\<exists>u. parseUsage googleResponse = Some u
    \<and> js_prop u ''prompt_tokens''
        = num_of_int (count_of (js_prop um ''promptTokenCount'')
                      + count_of (js_prop um ''toolUsePromptTokenCount''))
    \<and> js_prop u ''completion_tokens''
        = num_of_int (count_of (js_prop um ''candidatesTokenCount'')
                      + count_of (js_prop um ''thoughtsTokenCount''))
    \<and> js_prop (js_prop u ''completion_tokens_details'') ''image_tokens''
        = double_sum (image_counts (elems (js_prop um ''candidatesTokensDetails'')))
    \<and> js_prop u ''total_tokens'' = js_or (js_prop um ''totalTokenCount'') (JNum 0)
    \<and> (\<bar>count_of (js_prop um ''promptTokenCount'')
          + count_of (js_prop um ''toolUsePromptTokenCount'')\<bar> < 2 ^ 53 \<longrightarrow>
        js_prop u ''prompt_tokens''
          = JNum (count_of (js_prop um ''promptTokenCount'')
                  + count_of (js_prop um ''toolUsePromptTokenCount'')))
    \<and> (\<bar>count_of (js_prop um ''candidatesTokenCount'')
          + count_of (js_prop um ''thoughtsTokenCount'')\<bar> < 2 ^ 53 \<longrightarrow>
        js_prop u ''completion_tokens''
          = JNum (count_of (js_prop um ''candidatesTokenCount'')
                  + count_of (js_prop um ''thoughtsTokenCount'')))
    \<and> (list_all (\<lambda>n. 0 \<le> n) (image_counts (elems (js_prop um ''candidatesTokensDetails'')))
        \<and> sum_list (image_counts (elems (js_prop um ''candidatesTokensDetails''))) < 2 ^ 53 \<longrightarrow>
        js_prop (js_prop u ''completion_tokens_details'') ''image_tokens''
          = JNum (sum_list (image_counts (elems (js_prop um ''candidatesTokensDetails'')))))"
proof -
  have nn: "\<not> nullish um"
    using um(2) by (cases um) simp_all
  have usage: "js_or um (JObj []) = um"
    using um(2) by (simp add: js_or_def)
  let ?counts = "image_counts (elems (js_prop um ''candidatesTokensDetails''))"
  have exact: "list_all (\<lambda>n. 0 \<le> n) ?counts \<and> sum_list ?counts < 2 ^ 53 \<longrightarrow>
      double_sum ?counts = JNum (sum_list ?counts)"
    using double_sum_exact [of ?counts 0] by (simp add: double_sum_def)
  show ?thesis
    using um(1) nn exact
    by (simp add: parseUsage_def usage js_opt_def Let_def num_of_int_small
        js_add_counts [OF p t] js_add_counts [OF c r] image_tokens_of_details [OF d])
qed

theorem parseUsage_accounting_witness:
  "\<exists>u. parseUsage (JObj [(''usageMetadata'', JObj
        [(''promptTokenCount'', JNum 3),
         (''toolUsePromptTokenCount'', JNum 4),
         (''candidatesTokenCount'', JNum 2),
         (''thoughtsTokenCount'', JNum 5),
         (''totalTokenCount'', JNum 14),
         (''candidatesTokensDetails'', JArr
            [JObj [(''modality'', JStr ''IMAGE''), (''tokenCount'', JNum 7)],
             JObj [(''modality'', JStr ''TEXT''), (''tokenCount'', JNum 2)],
             JNull,
             JObj [(''modality'', JStr ''IMAGE'')],
             JObj [(''modality'', JStr ''IMAGE''), (''tokenCount'', JNum 1)]])])]) = Some u
    \<and> js_prop u ''prompt_tokens'' = JNum 7
    \<and> js_prop u ''completion_tokens'' = JNum 7
    \<and> js_prop (js_prop u ''completion_tokens_details'') ''image_tokens'' = JNum 8
    \<and> js_prop u ''total_tokens'' = JNum 14"
  using parseUsage_accounting
    [of "JObj [(''usageMetadata'', JObj
        [(''promptTokenCount'', JNum 3),
         (''toolUsePromptTokenCount'', JNum 4),
         (''candidatesTokenCount'', JNum 2),
         (''thoughtsTokenCount'', JNum 5),
         (''totalTokenCount'', JNum 14),
         (''candidatesTokensDetails'', JArr
            [JObj [(''modality'', JStr ''IMAGE''), (''tokenCount'', JNum 7)],
             JObj [(''modality'', JStr ''TEXT''), (''tokenCount'', JNum 2)],
             JNull,
             JObj [(''modality'', JStr ''IMAGE'')],
             JObj [(''modality'', JStr ''IMAGE''), (''tokenCount'', JNum 1)]])])]"
        "JObj
        [(''promptTokenCount'', JNum 3),
         (''toolUsePromptTokenCount'', JNum 4),
         (''candidatesTokenCount'', JNum 2),
         (''thoughtsTokenCount'', JNum 5),
         (''totalTokenCount'', JNum 14),
         (''candidatesTokensDetails'', JArr
            [JObj [(''modality'', JStr ''IMAGE''), (''tokenCount'', JNum 7)],
             JObj [(''modality'', JStr ''TEXT''), (''tokenCount'', JNum 2)],
             JNull,
             JObj [(''modality'', JStr ''IMAGE'')],
             JObj [(''modality'', JStr ''IMAGE''), (''tokenCount'', JNum 1)]])]"]
  by (simp add: js_get_def js_opt_def js_or_def counted_details_def is_image_detail_def
      image_counts_def double_sum_def num_of_int_small) blast

text \<open>
  C6 as stated fails in two ways. The sums are sums of doubles: for the counts \<open>2^53\<close>
  and 1 the \<open>prompt_tokens\<close> are \<open>2^53\<close>, not the sum. And a count need not be a
  number: for the counts \<open>"5"\<close> and 2 the \<open>prompt_tokens\<close> are the string \<open>"52"\<close>.
\<close>

theorem parseUsage_accounting_counterexample:
  "map_option (\<lambda>u. js_prop u ''prompt_tokens'')
     (parseUsage (JObj [(''usageMetadata'', JObj
        [(''promptTokenCount'', JNum 9007199254740992),
         (''toolUsePromptTokenCount'', JNum 1)])]))
     = Some (JNum 9007199254740992)
   \<and> JNum 9007199254740992 \<noteq> JNum (9007199254740992 + 1)
   \<and> map_option (\<lambda>u. js_prop u ''prompt_tokens'')
       (parseUsage (JObj [(''usageMetadata'', JObj
          [(''promptTokenCount'', JStr ''5''),
           (''toolUsePromptTokenCount'', JNum 2)])]))
     = Some (JStr ''52'')"
  by code_simp

section \<open>Properties of the non-streaming conversion\<close>

text \<open>
  C1, as the code has it. The remote response holds one candidate with the text part
  \<open>hello\<close>, \<open>finishReason: "STOP"\<close> and usage \<open>{promptTokenCount: 3,
  candidatesTokenCount: 2}\<close>; the model name of the request is \<open>x\<close>. The result has
  \<open>message.content = "hello"\<close>, \<open>usage.prompt_tokens = 3\<close> and
  \<open>usage.completion_tokens = 2\<close>, and its \<open>finish_reason\<close> is the remote reason as it
  came, \<open>"STOP"\<close>: the converter passes \<open>candidate.finishReason\<close> through.
\<close>

theorem nonstream_scenario:
  "\<exists>r. convertGoogleToOpenAINonStream clock rnd
       (JObj [(''candidates'', JArr [JObj
                 [(''content'', JObj [(''parts'', JArr [JObj [(''text'', JStr ''hello'')]]),
                                     (''role'', JStr ''model'')]),
                  (''finishReason'', JStr ''STOP'')]]),
              (''usageMetadata'', JObj [(''promptTokenCount'', JNum 3),
                                       (''candidatesTokenCount'', JNum 2)])])
       ''x'' = Some r
     \<and> js_prop (message0 r) ''content'' = JStr ''hello''
     \<and> js_prop (message0 r) ''role'' = JStr ''assistant''
     \<and> finish_reason_of r = JStr ''STOP''
     \<and> js_prop (js_prop r ''usage'') ''prompt_tokens'' = JNum 3
     \<and> js_prop (js_prop r ''usage'') ''completion_tokens'' = JNum 2"
  by (simp add: convertGoogleToOpenAINonStream_def parseUsage_def js_get_def js_opt_def
      js_opt_index0_def js_or_def js_add_def num_of_int_small string_append_def message0_def
      choice0_def finish_reason_of_def Let_def)

text \<open>
  C1 as stated fails: in that scenario the \<open>finish_reason\<close> of the result is not
  \<open>"stop"\<close>.
\<close>

theorem nonstream_scenario_counterexample:
  "map_option finish_reason_of
     (convertGoogleToOpenAINonStream 0 ''r''
       (JObj [(''candidates'', JArr [JObj
                 [(''content'', JObj [(''parts'', JArr [JObj [(''text'', JStr ''hello'')]]),
                                     (''role'', JStr ''model'')]),
                  (''finishReason'', JStr ''STOP'')]]),
              (''usageMetadata'', JObj [(''promptTokenCount'', JNum 3),
                                       (''candidatesTokenCount'', JNum 2)])])
       ''x'')
   \<noteq> Some (JStr ''stop'')"
  by (simp add: convertGoogleToOpenAINonStream_def parseUsage_def js_get_def js_opt_def
      js_opt_index0_def js_or_def js_add_def num_of_int_small string_append_def choice0_def
      finish_reason_of_def Let_def)

text \<open>
  C10. A response (an object, or any value but \<open>undefined\<close> and \<open>null\<close>) in which
  \<open>candidates?.[0]\<close> is missing gives a completion with empty content, role
  \<open>assistant\<close>, finish reason \<open>stop\<close> and a usage record of zeros; the conversion does
  not throw.
\<close>

theorem nonstream_no_candidate:
  assumes "\<not> nullish googleResponse"
    and "\<not> truthy (js_opt_index0 (js_prop googleResponse ''candidates''))"
  shows "\<exists>r. convertGoogleToOpenAINonStream clock rnd googleResponse modelName = Some r
     \<and> js_prop (message0 r) ''content'' = JStr []
     \<and> js_prop (message0 r) ''role'' = JStr ''assistant''
     \<and> finish_reason_of r = JStr ''stop''
     \<and> js_prop r ''object'' = JStr ''chat.completion''
     \<and> js_prop r ''model'' = JStr modelName
     \<and> js_prop (js_prop r ''usage'') ''prompt_tokens'' = JNum 0
     \<and> js_prop (js_prop r ''usage'') ''completion_tokens'' = JNum 0
     \<and> js_prop (js_prop r ''usage'') ''total_tokens'' = JNum 0"
  using assms
  by (simp add: convertGoogleToOpenAINonStream_def js_get_def message0_def choice0_def
      finish_reason_of_def)

theorem nonstream_no_candidate_witness:
  "\<exists>r. convertGoogleToOpenAINonStream 1700000000000 ''k3x''
          (JObj [(''candidates'', JArr []), (''promptFeedback'', JObj [])]) ''gemini'' = Some r
     \<and> js_prop (message0 r) ''content'' = JStr []
     \<and> js_prop (message0 r) ''role'' = JStr ''assistant''
     \<and> finish_reason_of r = JStr ''stop''
     \<and> js_prop r ''object'' = JStr ''chat.completion''
     \<and> js_prop r ''model'' = JStr ''gemini''
     \<and> js_prop (js_prop r ''usage'') ''prompt_tokens'' = JNum 0
     \<and> js_prop (js_prop r ''usage'') ''completion_tokens'' = JNum 0
     \<and> js_prop (js_prop r ''usage'') ''total_tokens'' = JNum 0"
  using nonstream_no_candidate
    [of "JObj [(''candidates'', JArr []), (''promptFeedback'', JObj [])]"
        1700000000000 "''k3x''" "''gemini''"]
  by (simp add: js_opt_index0_def)

section \<open>Properties of the streaming translation\<close>

lemma truthy_prop_not_nullish: "truthy (js_prop r k) \<Longrightarrow> \<not> nullish r"
  by (cases r) simp_all

lemma parseUsage_truthy: "parseUsage r = Some u \<Longrightarrow> truthy u"
  by (auto simp: parseUsage_def js_get_def Let_def bind_eq_Some_conv split: if_splits)

lemma cacheUsage_ok:
  assumes "\<not> nullish r" and "usage_ok r"
  shows "cacheUsage this r = Some (this\<lparr>streamUsage := latest_usage (streamUsage this) [r]\<rparr>)"
proof (cases "carries_usage r")
  case True
  then obtain u where "parseUsage r = Some u"
    using assms(2) by (auto simp: usage_ok_def)
  then show ?thesis
    using True assms(1) by (simp add: cacheUsage_def js_get_def carries_usage_def)
next
  case False
  then show ?thesis
    using assms(1) by (simp add: cacheUsage_def js_get_def carries_usage_def)
qed

lemma delta_of_openaiChunk [simp]: "delta_of (openaiChunk d fr c i m) = d"
  by (simp add: delta_of_def choice0_def openaiChunk_def)

lemma finish_reason_of_openaiChunk [simp]: "finish_reason_of (openaiChunk d fr c i m) = fr"
  by (simp add: finish_reason_of_def choice0_def openaiChunk_def)

text \<open>
  C7, as the code has it. A fragment that parses, has no candidate and carries
  \<open>promptFeedback\<close> gives exactly one chunk, provided the block reason converts to a
  string and \<open>_parseUsage\<close> returns on the usage metadata the fragment may carry: the
  delta content of the chunk is the error message ending in the block reason, its
  \<open>finish_reason\<close> is \<open>stop\<close>, and the call returns (it does not throw), whatever the
  translation state.
\<close>

theorem stream_safety_block:
  assumes dec: "decodes JSON_parse googleChunk r"
    and nocand: "\<not> truthy (js_opt_index0 (js_prop r ''candidates''))"
    and pf: "truthy (js_prop r ''promptFeedback'')"
    and reason: "js_to_string (js_prop (js_prop r ''promptFeedback'') ''blockReason'')
        = Some blockReason"
    and usage: "usage_ok r"
  shows "\<exists>c this' st'.
      translateGoogleToOpenAIStream JSON_parse clock rnd this googleChunk modelName streamState
        = Some (Frames [c], this', st')
    \<and> js_prop (delta_of c) ''content''
        = JStr (''[ProxySystem Error] Request blocked due to safety settings. Finish Reason: ''
                @ blockReason)
    \<and> finish_reason_of c = JStr ''stop''"
proof -
  have nn: "\<not> nullish r"
    using pf by (rule truthy_prop_not_nullish)
  have "translateGoogleToOpenAIStream JSON_parse clock rnd this googleChunk modelName streamState
      = translateGoogleResponse clock rnd this r modelName streamState"
    using dec by (simp add: translateGoogleToOpenAIStream_def decodes_def)
  then show ?thesis
    using nocand pf reason
    by (simp add: translateGoogleResponse_def cacheUsage_ok [OF nn usage] Let_def)
qed

lemma partDelta_some:
  assumes "part_ok part"
  shows "\<exists>d s'. partDelta part (Some s) = Some (d, Some s')
     \<and> (d \<noteq> None) = content_bearing part
     \<and> (\<forall>delta. d = Some delta \<longrightarrow>
           has_field delta ''role'' = (\<not> roleSent s)
           \<and> (has_field delta ''content'' \<or> has_field delta ''reasoning_content''))
     \<and> roleSent s' = (roleSent s \<or> content_bearing part)
     \<and> stream_id s' = stream_id s \<and> created s' = created s"
  using assms
  by (auto simp: partDelta_def js_get_def content_bearing_def has_field_def Let_def
      part_ok_def image_part_def)

lemma role_flags_step:
  "role_flags sent (Suc n) = (\<not> sent) # role_flags True n"
  by (simp add: role_flags_def)

lemma role_flags_append:
  "role_flags sent m @ role_flags (sent \<or> 0 < m) n = role_flags sent (m + n)"
  by (cases m) (auto simp: role_flags_def replicate_add split: nat.splits)

lemma streamParts_some:
  assumes "list_all part_ok ps"
  shows "\<exists>new s'. streamParts cr sid m ps (Some s) acc = Some (acc @ new, Some s')
     \<and> length new = length (filter content_bearing ps)
     \<and> map has_role new = role_flags (roleSent s) (length new)
     \<and> list_all content_chunk new
     \<and> roleSent s' = (roleSent s \<or> new \<noteq> [])
     \<and> stream_id s' = stream_id s \<and> created s' = created s"
  using assms
proof (induction ps arbitrary: s acc)
  case Nil
  then show ?case by (simp add: role_flags_def)
next
  case (Cons part ps)
  have nn: "part_ok part" and rest: "list_all part_ok ps"
    using Cons.prems by simp_all
  obtain d s1 where pd: "partDelta part (Some s) = Some (d, Some s1)"
    and bearing: "(d \<noteq> None) = content_bearing part"
    and delta: "\<forall>delta. d = Some delta \<longrightarrow>
           has_field delta ''role'' = (\<not> roleSent s)
           \<and> (has_field delta ''content'' \<or> has_field delta ''reasoning_content'')"
    and sent: "roleSent s1 = (roleSent s \<or> content_bearing part)"
    and ids: "stream_id s1 = stream_id s" "created s1 = created s"
    using partDelta_some [OF nn, of s] by blast
  show ?case
  proof (cases d)
    case None
    then have nb: "\<not> content_bearing part" using bearing by simp
    obtain new s' where "streamParts cr sid m ps (Some s1) acc = Some (acc @ new, Some s')"
      "length new = length (filter content_bearing ps)"
      "map has_role new = role_flags (roleSent s1) (length new)"
      "list_all content_chunk new"
      "roleSent s' = (roleSent s1 \<or> new \<noteq> [])"
      "stream_id s' = stream_id s1" "created s' = created s1"
      using Cons.IH [OF rest, of s1 acc] by blast
    then show ?thesis
      using pd None nb sent ids by simp
  next
    case (Some dv)
    then have b: "content_bearing part" using bearing by simp
    let ?c = "openaiChunk dv JNull cr sid m"
    obtain new s' where run: "streamParts cr sid m ps (Some s1) (acc @ [?c])
        = Some ((acc @ [?c]) @ new, Some s')"
      and len: "length new = length (filter content_bearing ps)"
      and flags: "map has_role new = role_flags (roleSent s1) (length new)"
      and chunks: "list_all content_chunk new"
      and sent': "roleSent s' = (roleSent s1 \<or> new \<noteq> [])"
      and ids': "stream_id s' = stream_id s1" "created s' = created s1"
      using Cons.IH [OF rest, of s1 "acc @ [?c]"] by blast
    have s1_sent: "roleSent s1" using sent b by simp
    have c_role: "has_role ?c = (\<not> roleSent s)"
      using delta Some by (simp add: has_role_def)
    have c_chunk: "content_chunk ?c"
      using delta Some by (simp add: content_chunk_def)
    have "streamParts cr sid m (part # ps) (Some s) acc = Some (acc @ (?c # new), Some s')"
      using pd Some run by simp
    moreover have "length (?c # new) = length (filter content_bearing (part # ps))"
      using len b by simp
    moreover have "map has_role (?c # new) = role_flags (roleSent s) (length (?c # new))"
      using flags c_role s1_sent by (simp add: role_flags_step)
    moreover have "list_all content_chunk (?c # new)"
      using chunks c_chunk by simp
    moreover have "roleSent s' = (roleSent s \<or> ?c # new \<noteq> [])"
      using sent' s1_sent by simp
    moreover have "stream_id s' = stream_id s" "created s' = created s"
      using ids ids' by simp_all
    ultimately show ?thesis by blast
  qed
qed


lemma candidate_not_nullish: "truthy (candidate_of r) \<Longrightarrow> \<not> nullish r"
  by (cases r) (simp_all add: candidate_of_def js_opt_index0_def)

lemma js_prop_set_same [simp]: "js_prop (js_set (JObj kvs) k v) k = v"
  by (simp add: update_conv')

lemma has_field_set_same [simp]: "has_field (js_set (JObj kvs) k v) k"
  by (simp add: has_field_def update_conv')

lemma delta_of_set_usage [simp]:
  "delta_of (js_set (openaiChunk d fr c i m) ''usage'' u) = d"
  by (simp add: delta_of_def choice0_def openaiChunk_def)

lemma finish_reason_of_set_usage [simp]:
  "finish_reason_of (js_set (openaiChunk d fr c i m) ''usage'' u) = fr"
  by (simp add: finish_reason_of_def choice0_def openaiChunk_def)

lemma usage_of_set_usage [simp]:
  "js_prop (js_set (js_set (openaiChunk d fr c i m) ''usage'' u) ''usage'' v) ''usage'' = v"
  "js_prop (js_set (openaiChunk d fr c i m) ''usage'' u) ''usage'' = u"
  "has_field (js_set (js_set (openaiChunk d fr c i m) ''usage'' u) ''usage'' v) ''usage''"
  "has_field (js_set (openaiChunk d fr c i m) ''usage'' u) ''usage''"
  "delta_of (js_set (js_set (openaiChunk d fr c i m) ''usage'' u) ''usage'' v) = d"
  "finish_reason_of (js_set (js_set (openaiChunk d fr c i m) ''usage'' u) ''usage'' v) = fr"
  by (simp_all add: openaiChunk_def has_field_def delta_of_def finish_reason_of_def choice0_def)

lemma translateGoogleResponse_candidate:
  assumes cf: "candidate_fragment r"
  shows "\<exists>new final this' s'.
      map_option (\<lambda>(out, this', st'). (frames out, this', st'))
        (translateGoogleResponse clock rnd this r m (Some s))
        = Some (new @ (if finishing r then [final] else []), this', Some s')
    \<and> length new = length (content_parts r)
    \<and> map has_role new = role_flags (roleSent s) (length new)
    \<and> list_all content_chunk new
    \<and> roleSent s' = (roleSent s \<or> new \<noteq> [])
    \<and> delta_of final = JObj []
    \<and> finish_reason_of final = js_prop (candidate_of r) ''finishReason''
    \<and> has_field final ''usage''
    \<and> js_prop final ''usage''
        = (if truthy (latest_usage (streamUsage this) [r])
           then latest_usage (streamUsage this) [r] else JNull)
    \<and> streamUsage this'
        = (if finishing r \<and> truthy (latest_usage (streamUsage this) [r]) then JNull
           else latest_usage (streamUsage this) [r])"
proof -
  obtain s0 where s0: "assignStreamId clock rnd (Some s) = Some s0"
    and sent0: "roleSent s0 = roleSent s"
    by (cases "truthy (stream_id s)") (simp_all add: assignStreamId_def)
  have cand: "truthy (candidate_of r)"
    and parts: "list_all part_ok (parts_of r)"
    and usage: "usage_ok r"
    using cf by (simp_all add: candidate_fragment_def)
  have nn: "\<not> nullish r"
    using cand by (rule candidate_not_nullish)
  define cache where "cache = latest_usage (streamUsage this) [r]"
  have u: "cacheUsage this r = Some (this\<lparr>streamUsage := cache\<rparr>)"
    unfolding cache_def using nn usage by (rule cacheUsage_ok)
  define base where "base = js_set (openaiChunk (JObj []) (js_prop (candidate_of r) ''finishReason'')
       (created s0) (stream_id s0) m) ''usage'' JNull"
  define final where "final = (if truthy cache then js_set base ''usage'' cache else base)"
  obtain new s' where run: "streamParts (created s0) (stream_id s0) m (parts_of r) (Some s0) []
        = Some ([] @ new, Some s')"
    and len: "length new = length (filter content_bearing (parts_of r))"
    and flags: "map has_role new = role_flags (roleSent s0) (length new)"
    and chunks: "list_all content_chunk new"
    and sent': "roleSent s' = (roleSent s0 \<or> new \<noteq> [])"
    using streamParts_some [OF parts, of "created s0" "stream_id s0" m s0 "[]"] by blast
  have loop: "(if truthy (js_prop (candidate_of r) ''content'')
         \<and> is_array (js_prop (js_prop (candidate_of r) ''content'') ''parts'')
       then streamParts (created s0) (stream_id s0) m
              (elems (js_prop (js_prop (candidate_of r) ''content'') ''parts'')) (Some s0) []
       else Some ([], Some s0)) = Some (new, Some s')"
  proof (cases "truthy (js_prop (candidate_of r) ''content'')
         \<and> is_array (js_prop (js_prop (candidate_of r) ''content'') ''parts'')")
    case True
    then show ?thesis using run by (simp add: parts_of_def)
  next
    case False
    then have "parts_of r = []"
      by (cases "js_prop (js_prop (candidate_of r) ''content'') ''parts''")
         (auto simp: parts_of_def)
    then show ?thesis using run by (simp add: False)
  qed
  have result: "translateGoogleResponse clock rnd this r m (Some s)
      = Some (if new @ (if finishing r then [final] else []) \<noteq> []
              then Frames (new @ (if finishing r then [final] else [])) else NoOutput,
              this\<lparr>streamUsage := (if finishing r \<and> truthy cache then JNull else cache)\<rparr>,
              Some s')"
  proof (cases "truthy (js_prop (candidate_of r) ''content'')
         \<and> is_array (js_prop (js_prop (candidate_of r) ''content'') ''parts'')")
    case True
    then have sp: "streamParts (created s0) (stream_id s0) m
        (elems (js_prop (js_prop (candidate_of r) ''content'') ''parts'')) (Some s0) []
        = Some (new, Some s')"
      using loop by simp
    show ?thesis
      using cand True
      by (simp add: translateGoogleResponse_def Let_def s0 u sp
          candidate_of_def [symmetric] finishing_def final_def base_def)
  next
    case False
    then have "new = []" "s' = s0"
      using loop by (simp_all add: False)
    then show ?thesis
      using cand
      by (simp add: translateGoogleResponse_def Let_def s0 u False
          candidate_of_def [symmetric] finishing_def final_def base_def)
  qed
  have term_props: "delta_of final = JObj []"
    "finish_reason_of final = js_prop (candidate_of r) ''finishReason''"
    "has_field final ''usage''"
    "js_prop final ''usage'' = (if truthy cache then cache else JNull)"
    by (simp_all add: final_def base_def)
  have mapped: "map_option (\<lambda>(out, this', st'). (frames out, this', st'))
        (translateGoogleResponse clock rnd this r m (Some s))
        = Some (new @ (if finishing r then [final] else []),
                this\<lparr>streamUsage := (if finishing r \<and> truthy cache then JNull else cache)\<rparr>,
                Some s')"
    by (simp add: result)
  show ?thesis
    unfolding cache_def [symmetric] content_parts_def
    apply (rule exI [of _ new], rule exI [of _ final])
    apply (rule exI [of _ "this\<lparr>streamUsage := (if finishing r \<and> truthy cache then JNull else cache)\<rparr>"])
    apply (rule exI [of _ s'])
    using mapped len flags chunks sent' sent0 term_props by simp
qed


lemma quiet_no_parts: "quiet_fragment r \<Longrightarrow> parts_of r = [] \<and> \<not> finishing r"
  by (cases "candidate_of r") (simp_all add: quiet_fragment_def parts_of_def finishing_def)

lemma translateGoogleResponse_quiet:
  assumes q: "quiet_fragment r"
  shows "\<exists>s'. translateGoogleResponse clock rnd this r m (Some s)
        = Some (NoOutput, this\<lparr>streamUsage := latest_usage (streamUsage this) [r]\<rparr>, Some s')
    \<and> roleSent s' = roleSent s"
proof -
  obtain s0 where s0: "assignStreamId clock rnd (Some s) = Some s0"
    and sent0: "roleSent s0 = roleSent s"
    by (cases "truthy (stream_id s)") (simp_all add: assignStreamId_def)
  have nn: "\<not> nullish r" and nc: "\<not> truthy (candidate_of r)"
    and npf: "\<not> truthy (js_prop r ''promptFeedback'')"
    and usage: "usage_ok r"
    using q by (simp_all add: quiet_fragment_def)
  have "translateGoogleResponse clock rnd this r m (Some s)
        = Some (NoOutput, this\<lparr>streamUsage := latest_usage (streamUsage this) [r]\<rparr>, Some s0)"
    using nc npf
    by (simp add: translateGoogleResponse_def Let_def s0 cacheUsage_ok [OF nn usage]
        candidate_of_def [symmetric] del: latest_usage.simps)
  then show ?thesis
    using sent0 by blast
qed

lemma translateGoogleResponse_fragment:
  assumes sf: "stream_fragment r"
  shows "\<exists>new final this' s'.
      map_option (\<lambda>(out, this', st'). (frames out, this', st'))
        (translateGoogleResponse clock rnd this r m (Some s))
        = Some (new @ (if finishing r then [final] else []), this', Some s')
    \<and> length new = length (content_parts r)
    \<and> map has_role new = role_flags (roleSent s) (length new)
    \<and> list_all content_chunk new
    \<and> roleSent s' = (roleSent s \<or> new \<noteq> [])
    \<and> delta_of final = JObj []
    \<and> finish_reason_of final = js_prop (candidate_of r) ''finishReason''
    \<and> has_field final ''usage''
    \<and> js_prop final ''usage''
        = (if truthy (latest_usage (streamUsage this) [r])
           then latest_usage (streamUsage this) [r] else JNull)
    \<and> streamUsage this'
        = (if finishing r \<and> truthy (latest_usage (streamUsage this) [r]) then JNull
           else latest_usage (streamUsage this) [r])"
proof (cases "candidate_fragment r")
  case True
  then show ?thesis
    by (rule translateGoogleResponse_candidate)
next
  case False
  then have q: "quiet_fragment r"
    using sf by (simp add: stream_fragment_def)
  obtain s' where run: "translateGoogleResponse clock rnd this r m (Some s)
        = Some (NoOutput, this\<lparr>streamUsage := latest_usage (streamUsage this) [r]\<rparr>, Some s')"
    and sent: "roleSent s' = roleSent s"
    using translateGoogleResponse_quiet [OF q, of clock rnd this m s] by blast
  have quiet: "parts_of r = []" "\<not> finishing r"
    using quiet_no_parts [OF q] by simp_all
  let ?final = "js_set (openaiChunk (JObj []) (js_prop (candidate_of r) ''finishReason'') JNull
      JNull m) ''usage''
      (if truthy (latest_usage (streamUsage this) [r])
       then latest_usage (streamUsage this) [r] else JNull)"
  show ?thesis
    apply (rule exI [of _ "[]"], rule exI [of _ ?final])
    apply (rule exI [of _ "this\<lparr>streamUsage := latest_usage (streamUsage this) [r]\<rparr>"])
    apply (rule exI [of _ s'])
    using run sent quiet by (simp add: content_parts_def role_flags_def del: latest_usage.simps)
qed

lemma translate_decoded:
  "decodes JSON_parse googleChunk r \<Longrightarrow>
   translateGoogleToOpenAIStream JSON_parse clock rnd this googleChunk m st
     = translateGoogleResponse clock rnd this r m st"
  by (simp add: translateGoogleToOpenAIStream_def decodes_def)

lemma cache_ok_latest: "cache_ok u \<Longrightarrow> cache_ok (latest_usage u rs)"
proof (induction rs arbitrary: u)
  case Nil
  then show ?case by simp
next
  case (Cons r rs)
  have "cache_ok (if carries_usage r
      then (case parseUsage r of Some v \<Rightarrow> v | None \<Rightarrow> u) else u)"
    using Cons.prems
    by (auto simp: cache_ok_def dest: parseUsage_truthy split: option.splits)
  from Cons.IH [OF this] show ?case by simp
qed

lemma feed_step:
  assumes fc: "fragment_call JSON_parse (clock, rnd, googleChunk) r"
  shows "\<exists>new final this1 s1.
      feed JSON_parse m this (Some s) ((clock, rnd, googleChunk) # rest)
        = (case feed JSON_parse m this1 (Some s1) rest of
             None \<Rightarrow> None
           | Some (cs, this2, st2) \<Rightarrow>
               Some ((new @ (if finishing r then [final] else [])) @ cs, this2, st2))
    \<and> length new = length (content_parts r)
    \<and> map has_role new = role_flags (roleSent s) (length new)
    \<and> list_all content_chunk new
    \<and> roleSent s1 = (roleSent s \<or> new \<noteq> [])
    \<and> delta_of final = JObj []
    \<and> finish_reason_of final = js_prop (candidate_of r) ''finishReason''
    \<and> has_field final ''usage''
    \<and> js_prop final ''usage''
        = (if truthy (latest_usage (streamUsage this) [r])
           then latest_usage (streamUsage this) [r] else JNull)
    \<and> streamUsage this1
        = (if finishing r \<and> truthy (latest_usage (streamUsage this) [r]) then JNull
           else latest_usage (streamUsage this) [r])"
proof -
  have dec: "decodes JSON_parse googleChunk r" and sf: "stream_fragment r"
    using fc by (simp_all add: fragment_call_def chunk_of_def)
  obtain new final this1 s1 where
    run: "map_option (\<lambda>(out, this', st'). (frames out, this', st'))
        (translateGoogleResponse clock rnd this r m (Some s))
        = Some (new @ (if finishing r then [final] else []), this1, Some s1)"
    and props: "length new = length (content_parts r)"
      "map has_role new = role_flags (roleSent s) (length new)"
      "list_all content_chunk new"
      "roleSent s1 = (roleSent s \<or> new \<noteq> [])"
      "delta_of final = JObj []"
      "finish_reason_of final = js_prop (candidate_of r) ''finishReason''"
      "has_field final ''usage''"
      "js_prop final ''usage''
        = (if truthy (latest_usage (streamUsage this) [r])
           then latest_usage (streamUsage this) [r] else JNull)"
      "streamUsage this1
        = (if finishing r \<and> truthy (latest_usage (streamUsage this) [r]) then JNull
           else latest_usage (streamUsage this) [r])"
    using translateGoogleResponse_fragment [OF sf, of clock rnd this m s] by blast
  obtain out where out: "translateGoogleResponse clock rnd this r m (Some s)
      = Some (out, this1, Some s1)"
    and fr: "frames out = new @ (if finishing r then [final] else [])"
    using run by auto
  have "feed JSON_parse m this (Some s) ((clock, rnd, googleChunk) # rest)
        = (case feed JSON_parse m this1 (Some s1) rest of
             None \<Rightarrow> None
           | Some (cs, this2, st2) \<Rightarrow>
               Some ((new @ (if finishing r then [final] else [])) @ cs, this2, st2))"
    by (simp add: translate_decoded [OF dec] out fr split: option.splits)
  then show ?thesis
    using props by blast
qed


lemma latest_usage_Cons:
  "latest_usage u (r # rs) = latest_usage (latest_usage u [r]) rs"
  by simp

lemma cache_ok_value: "cache_ok u \<Longrightarrow> (if truthy u then u else JNull) = u"
  by (auto simp: cache_ok_def)

lemma cache_ok_cleared: "cache_ok u \<Longrightarrow> (if truthy u then JNull else u) = JNull"
  by (auto simp: cache_ok_def)

lemma feed_response:
  assumes "list_all2 (fragment_call JSON_parse) calls (pre @ [fin])"
    and "list_all (\<lambda>r. \<not> finishing r) pre" and "finishing fin"
    and "cache_ok (streamUsage this)"
  shows "\<exists>content final this' st'.
      feed JSON_parse m this (Some s) calls = Some (content @ [final], this', st')
    \<and> length content = length (concat (map content_parts (pre @ [fin])))
    \<and> map has_role content = role_flags (roleSent s) (length content)
    \<and> list_all content_chunk content
    \<and> delta_of final = JObj []
    \<and> finish_reason_of final = js_prop (candidate_of fin) ''finishReason''
    \<and> has_field final ''usage''
    \<and> js_prop final ''usage'' = latest_usage (streamUsage this) (pre @ [fin])
    \<and> streamUsage this' = JNull"
  using assms
proof (induction pre arbitrary: calls this s)
  case Nil
  then obtain clock rnd googleChunk where calls: "calls = [(clock, rnd, googleChunk)]"
    and fc: "fragment_call JSON_parse (clock, rnd, googleChunk) fin"
    by (cases calls) (auto simp: list_all2_Cons2)
  have ok: "cache_ok (latest_usage (streamUsage this) [fin])"
    using Nil.prems(4) by (rule cache_ok_latest)
  obtain new final this1 s1 where
    run: "feed JSON_parse m this (Some s) ((clock, rnd, googleChunk) # [])
        = (case feed JSON_parse m this1 (Some s1) [] of
             None \<Rightarrow> None
           | Some (cs, this2, st2) \<Rightarrow>
               Some ((new @ (if finishing fin then [final] else [])) @ cs, this2, st2))"
    and props: "length new = length (content_parts fin)"
      "map has_role new = role_flags (roleSent s) (length new)"
      "list_all content_chunk new"
      "delta_of final = JObj []"
      "finish_reason_of final = js_prop (candidate_of fin) ''finishReason''"
      "has_field final ''usage''"
    and usage: "js_prop final ''usage''
        = (if truthy (latest_usage (streamUsage this) [fin])
           then latest_usage (streamUsage this) [fin] else JNull)"
    and cache: "streamUsage this1
        = (if finishing fin \<and> truthy (latest_usage (streamUsage this) [fin]) then JNull
           else latest_usage (streamUsage this) [fin])"
    using feed_step [OF fc, of m this s "[]"] by blast
  have "feed JSON_parse m this (Some s) calls = Some (new @ [final], this1, Some s1)"
    using run Nil.prems(3) by (simp add: calls)
  moreover have "js_prop final ''usage'' = latest_usage (streamUsage this) ([] @ [fin])"
    using usage cache_ok_value [OF ok] by simp
  moreover have "streamUsage this1 = JNull"
    using cache Nil.prems(3) cache_ok_cleared [OF ok] by simp
  moreover have "length new = length (concat (map content_parts ([] @ [fin])))"
    using props(1) by simp
  ultimately show ?case
    using props by blast
next
  case (Cons r pre)
  then obtain clock rnd googleChunk rest where calls: "calls = (clock, rnd, googleChunk) # rest"
    and fc: "fragment_call JSON_parse (clock, rnd, googleChunk) r"
    and rest: "list_all2 (fragment_call JSON_parse) rest (pre @ [fin])"
    by (cases calls) (auto simp: list_all2_Cons2)
  have nf: "\<not> finishing r" and pre: "list_all (\<lambda>r. \<not> finishing r) pre"
    using Cons.prems(2) by simp_all
  obtain new final0 this1 s1 where
    run: "feed JSON_parse m this (Some s) ((clock, rnd, googleChunk) # rest)
        = (case feed JSON_parse m this1 (Some s1) rest of
             None \<Rightarrow> None
           | Some (cs, this2, st2) \<Rightarrow>
               Some ((new @ (if finishing r then [final0] else [])) @ cs, this2, st2))"
    and len1: "length new = length (content_parts r)"
    and flags1: "map has_role new = role_flags (roleSent s) (length new)"
    and chunks1: "list_all content_chunk new"
    and sent1: "roleSent s1 = (roleSent s \<or> new \<noteq> [])"
    and cache1: "streamUsage this1
        = (if finishing r \<and> truthy (latest_usage (streamUsage this) [r]) then JNull
           else latest_usage (streamUsage this) [r])"
    using feed_step [OF fc, of m this s rest] by blast
  have cache1': "streamUsage this1 = latest_usage (streamUsage this) [r]"
    using cache1 nf by simp
  have ok1: "cache_ok (streamUsage this1)"
    unfolding cache1' using Cons.prems(4) by (rule cache_ok_latest)
  obtain content final this' st' where
    run2: "feed JSON_parse m this1 (Some s1) rest = Some (content @ [final], this', st')"
    and len2: "length content = length (concat (map content_parts (pre @ [fin])))"
    and flags2: "map has_role content = role_flags (roleSent s1) (length content)"
    and chunks2: "list_all content_chunk content"
    and fin_props: "delta_of final = JObj []"
      "finish_reason_of final = js_prop (candidate_of fin) ''finishReason''"
      "has_field final ''usage''"
      "streamUsage this' = JNull"
    and usage2: "js_prop final ''usage'' = latest_usage (streamUsage this1) (pre @ [fin])"
    using Cons.IH [OF rest pre Cons.prems(3) ok1, of s1] by blast
  have "feed JSON_parse m this (Some s) calls = Some ((new @ content) @ [final], this', st')"
    using run run2 nf by (simp add: calls)
  moreover have "length (new @ content)
      = length (concat (map content_parts ((r # pre) @ [fin])))"
    using len1 len2 by simp
  moreover have "map has_role (new @ content)
      = role_flags (roleSent s) (length (new @ content))"
    using flags1 flags2 sent1
      role_flags_append [of "roleSent s" "length new" "length content"]
    by simp
  moreover have "list_all content_chunk (new @ content)"
    using chunks1 chunks2 by simp
  moreover have "js_prop final ''usage'' = latest_usage (streamUsage this) ((r # pre) @ [fin])"
    using usage2 cache1' by simp
  ultimately show ?case
    using fin_props by blast
qed


lemma latest_usage_none:
  "list_all (\<lambda>r. \<not> carries_usage r) rs \<Longrightarrow> latest_usage u rs = u"
  by (induction rs arbitrary: u) simp_all

text \<open>
  C2, as the code has it. The fragments of a response parse to candidate fragments or
  quiet ones (so the loop throws on no part, and \<open>_parseUsage\<close> returns on the usage
  metadata they carry), the last one carrying \<open>finishReason\<close> and no earlier one; the
  state has not sent the role and the usage cache is empty. Then the calls return and
  emit one content chunk for each content-bearing part, the role on the first of them
  only, and after them exactly one terminal chunk with an empty delta, the finish reason
  and a \<open>usage\<close> field: the usage record of the last fragment that carried usage
  metadata, and \<open>null\<close> if none did. The cache is empty afterwards.
\<close>

theorem stream_response_chunks:
  assumes "list_all2 (fragment_call JSON_parse) calls (pre @ [fin])"
    and "list_all (\<lambda>r. \<not> finishing r) pre" and "finishing fin"
    and "\<not> roleSent s" and "streamUsage this = JNull"
  shows "\<exists>content final this' st'.
      feed JSON_parse m this (Some s) calls = Some (content @ [final], this', st')
    \<and> length content = length (concat (map content_parts (pre @ [fin])))
    \<and> map has_role content = role_flags False (length content)
    \<and> list_all content_chunk content
    \<and> delta_of final = JObj []
    \<and> finish_reason_of final = js_prop (candidate_of fin) ''finishReason''
    \<and> has_field final ''usage''
    \<and> js_prop final ''usage'' = latest_usage JNull (pre @ [fin])
    \<and> (list_all (\<lambda>r. \<not> carries_usage r) (pre @ [fin]) \<longrightarrow> js_prop final ''usage'' = JNull)
    \<and> streamUsage this' = JNull"
proof -
  have ok: "cache_ok (streamUsage this)"
    using assms(5) by (simp add: cache_ok_def)
  obtain content final this' st' where
    "feed JSON_parse m this (Some s) calls = Some (content @ [final], this', st')"
    "length content = length (concat (map content_parts (pre @ [fin])))"
    "map has_role content = role_flags (roleSent s) (length content)"
    "list_all content_chunk content"
    "delta_of final = JObj []"
    "finish_reason_of final = js_prop (candidate_of fin) ''finishReason''"
    "has_field final ''usage''"
    "js_prop final ''usage'' = latest_usage (streamUsage this) (pre @ [fin])"
    "streamUsage this' = JNull"
    using feed_response [OF assms(1-3) ok, of m s] by blast
  moreover from this have "list_all (\<lambda>r. \<not> carries_usage r) (pre @ [fin])
      \<longrightarrow> js_prop final ''usage'' = JNull"
    using assms(5) latest_usage_none [of "pre @ [fin]" JNull] by simp
  ultimately show ?thesis
    using assms(4,5) by (intro exI [of _ content] exI [of _ final] exI [of _ this'] exI [of _ st']) simp
qed

theorem stream_response_chunks_witness:
  \<open>\<exists>content final this' st'.
      feed (parse_table
           [(''{"candidates":[{"content":{"parts":[{"text":"Hel"},{"thought":true,"text":"hm"}]}}],"usageMetadata":{"promptTokenCount":3}}'',
             JObj [(''candidates'', JArr [JObj [(''content'', JObj [(''parts'', JArr
                 [JObj [(''text'', JStr ''Hel'')],
                  JObj [(''thought'', JBool True), (''text'', JStr ''hm'')]])])]]),
              (''usageMetadata'', JObj [(''promptTokenCount'', JNum 3)])]),
            (''{"usageMetadata":{"promptTokenCount":5}}'',
             JObj [(''usageMetadata'', JObj [(''promptTokenCount'', JNum 5)])]),
            (''{"candidates":[{"content":{"parts":[{"text":"lo"}]},"finishReason":"STOP"}]}'',
             JObj [(''candidates'', JArr [JObj [(''content'', JObj [(''parts'', JArr
                 [JObj [(''text'', JStr ''lo'')]])]),
                 (''finishReason'', JStr ''STOP'')]])])])
        ''gemini'' \<lparr>streamUsage = JNull\<rparr>
        (Some \<lparr>stream_id = JUndef, created = JUndef, roleSent = False, inThought = False\<rparr>)
        [(1700000000000, ''k3x'',
         ''data: '' @ ''{"candidates":[{"content":{"parts":[{"text":"Hel"},{"thought":true,"text":"hm"}]}}],"usageMetadata":{"promptTokenCount":3}}''),
        (1700000000200, ''m1p'',
         ''data: '' @ ''{"usageMetadata":{"promptTokenCount":5}}''),
        (1700000000500, ''q9z'',
         ''data: '' @ ''{"candidates":[{"content":{"parts":[{"text":"lo"}]},"finishReason":"STOP"}]}'')]
        = Some (content @ [final], this', st')
    \<and> length content = 3
    \<and> map has_role content = [True, False, False]
    \<and> list_all content_chunk content
    \<and> delta_of final = JObj []
    \<and> finish_reason_of final = JStr ''STOP''
    \<and> has_field final ''usage''
    \<and> js_prop (js_prop final ''usage'') ''prompt_tokens'' = JNum 5
    \<and> streamUsage this' = JNull\<close>
proof -
  let ?r1 = \<open>JObj [(''candidates'', JArr [JObj [(''content'', JObj [(''parts'', JArr
                 [JObj [(''text'', JStr ''Hel'')],
                  JObj [(''thought'', JBool True), (''text'', JStr ''hm'')]])])]]),
              (''usageMetadata'', JObj [(''promptTokenCount'', JNum 3)])]\<close>
  let ?rq = \<open>JObj [(''usageMetadata'', JObj [(''promptTokenCount'', JNum 5)])]\<close>
  let ?r2 = \<open>JObj [(''candidates'', JArr [JObj [(''content'', JObj [(''parts'', JArr
                 [JObj [(''text'', JStr ''lo'')]])]),
                 (''finishReason'', JStr ''STOP'')]])]\<close>
  let ?P = \<open>parse_table
           [(''{"candidates":[{"content":{"parts":[{"text":"Hel"},{"thought":true,"text":"hm"}]}}],"usageMetadata":{"promptTokenCount":3}}'',
             JObj [(''candidates'', JArr [JObj [(''content'', JObj [(''parts'', JArr
                 [JObj [(''text'', JStr ''Hel'')],
                  JObj [(''thought'', JBool True), (''text'', JStr ''hm'')]])])]]),
              (''usageMetadata'', JObj [(''promptTokenCount'', JNum 3)])]),
            (''{"usageMetadata":{"promptTokenCount":5}}'',
             JObj [(''usageMetadata'', JObj [(''promptTokenCount'', JNum 5)])]),
            (''{"candidates":[{"content":{"parts":[{"text":"lo"}]},"finishReason":"STOP"}]}'',
             JObj [(''candidates'', JArr [JObj [(''content'', JObj [(''parts'', JArr
                 [JObj [(''text'', JStr ''lo'')]])]),
                 (''finishReason'', JStr ''STOP'')]])])]\<close>
  let ?calls = \<open>[(1700000000000, ''k3x'',
         ''data: '' @ ''{"candidates":[{"content":{"parts":[{"text":"Hel"},{"thought":true,"text":"hm"}]}}],"usageMetadata":{"promptTokenCount":3}}''),
        (1700000000200, ''m1p'',
         ''data: '' @ ''{"usageMetadata":{"promptTokenCount":5}}''),
        (1700000000500, ''q9z'',
         ''data: '' @ ''{"candidates":[{"content":{"parts":[{"text":"lo"}]},"finishReason":"STOP"}]}'')]\<close>
  let ?s = \<open>\<lparr>stream_id = JUndef, created = JUndef, roleSent = False, inThought = False\<rparr>\<close>
  let ?conv = \<open>\<lparr>streamUsage = JNull\<rparr>\<close>
  have calls: "list_all2 (fragment_call ?P) ?calls ([?r1, ?rq] @ [?r2])"
    by (simp add: fragment_call_def decodes_def chunk_of_def jsonString_of_def starts_with_def
        js_trim_def is_space_def parse_table_def stream_fragment_def candidate_fragment_def
        quiet_fragment_def candidate_of_def parts_of_def js_opt_index0_def part_ok_def
        image_part_def usage_ok_def carries_usage_def parseUsage_def js_get_def js_or_def
        js_opt_def js_add_def num_of_int_small Let_def)
  have pre: "list_all (\<lambda>r. \<not> finishing r) [?r1, ?rq]"
    by (simp add: finishing_def candidate_of_def js_opt_index0_def)
  have fin: "finishing ?r2"
    by (simp add: finishing_def candidate_of_def js_opt_index0_def)
  have s: "\<not> roleSent ?s" and empty: "streamUsage ?conv = JNull"
    by simp_all
  have n: "length (concat (map content_parts ([?r1, ?rq] @ [?r2]))) = 3"
    by (simp add: content_parts_def parts_of_def candidate_of_def js_opt_index0_def
        content_bearing_def)
  have reason: "js_prop (candidate_of ?r2) ''finishReason'' = JStr ''STOP''"
    by (simp add: candidate_of_def js_opt_index0_def)
  have usage: "js_prop (latest_usage JNull ([?r1, ?rq] @ [?r2])) ''prompt_tokens'' = JNum 5"
    by (simp add: carries_usage_def parseUsage_def js_get_def js_or_def js_opt_def js_add_def
        num_of_int_small Let_def)
  obtain content final this' st' where
    run: "feed ?P ''gemini'' ?conv (Some ?s) ?calls = Some (content @ [final], this', st')"
    and len: "length content = length (concat (map content_parts ([?r1, ?rq] @ [?r2])))"
    and flags: "map has_role content = role_flags False (length content)"
    and chunks: "list_all content_chunk content"
    and delta: "delta_of final = JObj []"
    and fr: "finish_reason_of final = js_prop (candidate_of ?r2) ''finishReason''"
    and field: "has_field final ''usage''"
    and latest: "js_prop final ''usage'' = latest_usage JNull ([?r1, ?rq] @ [?r2])"
    and cleared: "streamUsage this' = JNull"
    using stream_response_chunks
      [of ?P ?calls "[?r1, ?rq]" ?r2 ?s ?conv "''gemini''", OF calls pre fin s empty]
    by blast
  have len3: "length content = 3"
    using len n by simp
  have roles: "map has_role content = [True, False, False]"
    using flags unfolding len3 by (simp add: role_flags_def numeral_3_eq_3)
  have stop: "finish_reason_of final = JStr ''STOP''"
    using fr reason by simp
  have tokens: "js_prop (js_prop final ''usage'') ''prompt_tokens'' = JNum 5"
    using latest usage by simp
  show ?thesis
    by (rule exI [of _ content], rule exI [of _ final], rule exI [of _ this'],
        rule exI [of _ st'])
       (intro conjI run len3 roles chunks delta stop field tokens cleared)
qed

text \<open>
  C2 as stated fails where it says the terminal chunk has no usage field when usage
  metadata never arrived: the one fragment below carries none, and of the two chunks
  emitted the terminal one has the field (holding \<open>null\<close>).
\<close>

theorem stream_response_chunks_counterexample:
  \<open>map has_usage_field
     (emitted_chunks (feed
        (parse_table
           [(''{"candidates":[{"content":{"parts":[{"text":"lo"}]},"finishReason":"STOP"}]}'',
             JObj [(''candidates'', JArr [JObj [(''content'', JObj [(''parts'', JArr
                 [JObj [(''text'', JStr ''lo'')]])]),
                 (''finishReason'', JStr ''STOP'')]])])])
        ''gemini'' \<lparr>streamUsage = JNull\<rparr>
        (Some \<lparr>stream_id = JUndef, created = JUndef, roleSent = False, inThought = False\<rparr>)
        [(1700000000500, ''q9z'',
          ''data: {"candidates":[{"content":{"parts":[{"text":"lo"}]},"finishReason":"STOP"}]}'')]))
   = [False, True]\<close>
  by (simp add: emitted_chunks_def has_usage_field_def has_field_def translateGoogleToOpenAIStream_def
      jsonString_of_def starts_with_def js_trim_def is_space_def parse_table_def
      translateGoogleResponse_def assignStreamId_def cacheUsage_def js_get_def
      js_opt_index0_def partDelta_def openaiChunk_def Let_def)

theorem stream_safety_block_witness:
  \<open>\<exists>c this' st'.
      translateGoogleToOpenAIStream
        (parse_table [(''{"promptFeedback":{"blockReason":"SAFETY"}}'',
                       JObj [(''promptFeedback'', JObj [(''blockReason'', JStr ''SAFETY'')])])])
        1700000000000 ''k3x'' \<lparr>streamUsage = JNull\<rparr>
        ''data: {"promptFeedback":{"blockReason":"SAFETY"}}'' ''gemini'' None
        = Some (Frames [c], this', st')
    \<and> js_prop (delta_of c) ''content''
        = JStr ''[ProxySystem Error] Request blocked due to safety settings. Finish Reason: SAFETY''
    \<and> finish_reason_of c = JStr ''stop''\<close>
  using stream_safety_block
    [where JSON_parse = \<open>parse_table [(''{"promptFeedback":{"blockReason":"SAFETY"}}'',
                       JObj [(''promptFeedback'', JObj [(''blockReason'', JStr ''SAFETY'')])])]\<close>
       and googleChunk = \<open>''data: {"promptFeedback":{"blockReason":"SAFETY"}}''\<close>
       and r = \<open>JObj [(''promptFeedback'', JObj [(''blockReason'', JStr ''SAFETY'')])]\<close>
       and blockReason = \<open>''SAFETY''\<close>
       and clock = 1700000000000 and rnd = \<open>''k3x''\<close>
       and this = \<open>\<lparr>streamUsage = JNull\<rparr>\<close> and modelName = \<open>''gemini''\<close>
       and streamState = None]
  by (simp add: decodes_def jsonString_of_def starts_with_def js_trim_def is_space_def
      parse_table_def js_opt_index0_def usage_ok_def carries_usage_def)

text \<open>
  C7 as stated fails for a fragment whose block reason does not convert to a string, and
  for one whose usage metadata \<open>_parseUsage\<close> throws on: both fragments below parse, have
  no candidate and carry \<open>promptFeedback\<close>, and on both the translator throws.
\<close>

theorem stream_safety_block_counterexample:
  \<open>translateGoogleToOpenAIStream
      (parse_table [(''{"promptFeedback":{"blockReason":{"toString":0}}}'',
         JObj [(''promptFeedback'', JObj [(''blockReason'', JObj [(''toString'', JNum 0)])])])])
      1700000000000 ''k3x'' \<lparr>streamUsage = JNull\<rparr>
      ''data: {"promptFeedback":{"blockReason":{"toString":0}}}'' ''gemini'' None
    = None
   \<and> translateGoogleToOpenAIStream
      (parse_table
         [(''{"promptFeedback":{"blockReason":"SAFETY"},"usageMetadata":{"promptTokenCount":{"toString":0}}}'',
           JObj [(''promptFeedback'', JObj [(''blockReason'', JStr ''SAFETY'')]),
                 (''usageMetadata'', JObj [(''promptTokenCount'', JObj [(''toString'', JNum 0)])])])])
      1700000000000 ''k3x'' \<lparr>streamUsage = JNull\<rparr>
      ''data: {"promptFeedback":{"blockReason":"SAFETY"},"usageMetadata":{"promptTokenCount":{"toString":0}}}''
      ''gemini'' None
    = None\<close>
  by (simp add: translateGoogleToOpenAIStream_def jsonString_of_def starts_with_def js_trim_def
      is_space_def parse_table_def translateGoogleResponse_def assignStreamId_def cacheUsage_def
      parseUsage_def js_add_def js_get_def js_or_def js_opt_def js_opt_index0_def Let_def)

section \<open>Properties of the outbound translation\<close>

lemma is_str_prop_not_nullish: "is_str (js_prop m k) \<Longrightarrow> \<not> nullish m"
  by (cases m) simp_all

lemma filter_role_total:
  "list_all (\<lambda>m. \<not> nullish m) ms \<Longrightarrow>
   filter_role keep ms = Some (filter (\<lambda>m. keep (js_prop m ''role'')) ms)"
  by (induction ms) (simp_all add: js_get_def)

lemma convertMessages_text:
  "text_only ms \<Longrightarrow>
   convertMessages axios_get mime_lookup ms acc = Some (acc @ map text_entry ms)"
proof (induction ms arbitrary: acc)
  case Nil
  then show ?case by simp
next
  case (Cons m ms)
  then obtain str where content: "js_prop m ''content'' = JStr str" and rest: "text_only ms"
    by (cases "js_prop m ''content''") (simp_all add: text_only_def)
  show ?case
    using Cons.IH [OF rest] by (simp add: content text_entry_def google_role_def)
qed

lemma js_prop_js_set:
  "js_prop (js_set (JObj kvs) k v) k' = (if k' = k then v else js_prop (JObj kvs) k')"
  by (simp add: update_conv')

lemma tools_some_total:
  "list_all (\<lambda>t. \<not> nullish t) ts \<Longrightarrow>
   tools_some k ts = Some (list_ex (\<lambda>t. truthy (js_prop t k)) ts)"
  by (induction ts) (simp_all add: js_get_def)

lemma forceTool_fresh:
  assumes "js_prop (JObj kvs) ''tools'' = JArr ts" "list_all (\<lambda>t. \<not> nullish t) ts"
  shows "\<exists>kvs'. forceTool k (JObj kvs) = Some (JObj kvs')
     \<and> (\<forall>k'. k' \<noteq> ''tools'' \<longrightarrow> js_prop (JObj kvs') k' = js_prop (JObj kvs) k')
     \<and> (\<exists>ts'. js_prop (JObj kvs') ''tools'' = JArr ts' \<and> list_all (\<lambda>t. \<not> nullish t) ts')"
  using assms by (auto simp: forceTool_def tools_some_total update_conv')

lemma injectForcedTools_no_tools:
  assumes "js_prop (JObj kvs) ''tools'' = JUndef"
  shows "\<exists>kvs'. injectForcedTools sys (JObj kvs) = Some (JObj kvs')
     \<and> (\<forall>k'. k' \<noteq> ''tools'' \<longrightarrow> js_prop (JObj kvs') k' = js_prop (JObj kvs) k')"
proof (cases "forceWebSearch sys \<or> forceUrlContext sys")
  case False
  then show ?thesis by (simp add: injectForcedTools_def)
next
  case True
  define kvs0 where "kvs0 = AList.update ''tools'' (JArr []) kvs"
  have req0: "js_set (JObj kvs) ''tools'' (JArr []) = JObj kvs0"
    by (simp add: kvs0_def)
  have tools0: "js_prop (JObj kvs0) ''tools'' = JArr []"
    and same0: "\<forall>k'. k' \<noteq> ''tools'' \<longrightarrow> js_prop (JObj kvs0) k' = js_prop (JObj kvs) k'"
    by (simp_all add: kvs0_def update_conv')
  obtain kvs1 where r1: "(if forceWebSearch sys then forceTool ''googleSearch'' (JObj kvs0)
        else Some (JObj kvs0)) = Some (JObj kvs1)"
    and same1: "\<forall>k'. k' \<noteq> ''tools'' \<longrightarrow> js_prop (JObj kvs1) k' = js_prop (JObj kvs0) k'"
    and tools1: "\<exists>ts'. js_prop (JObj kvs1) ''tools'' = JArr ts' \<and> list_all (\<lambda>t. \<not> nullish t) ts'"
    using forceTool_fresh [of kvs0 "[]" "''googleSearch''"] tools0
    by (cases "forceWebSearch sys") auto
  obtain ts1 where ts1: "js_prop (JObj kvs1) ''tools'' = JArr ts1"
      "list_all (\<lambda>t. \<not> nullish t) ts1"
    using tools1 by blast
  obtain kvs2 where r2: "(if forceUrlContext sys then forceTool ''urlContext'' (JObj kvs1)
        else Some (JObj kvs1)) = Some (JObj kvs2)"
    and same2: "\<forall>k'. k' \<noteq> ''tools'' \<longrightarrow> js_prop (JObj kvs2) k' = js_prop (JObj kvs1) k'"
    using forceTool_fresh [OF ts1, of "''urlContext''"]
    by (cases "forceUrlContext sys") auto
  have "injectForcedTools sys (JObj kvs) = Some (JObj kvs2)"
    using True assms r1 r2
    by (cases "forceWebSearch sys"; cases "forceUrlContext sys")
       (simp_all add: injectForcedTools_def Let_def kvs0_def [symmetric])
  then show ?thesis
    using same0 same1 same2 by auto
qed


lemma buildGoogleRequest_props:
  "\<exists>kvs. buildGoogleRequest body gcs si tc = JObj kvs
     \<and> js_prop (JObj kvs) ''tools'' = JUndef
     \<and> js_prop (JObj kvs) ''contents'' = JArr gcs
     \<and> attached_thinking (JObj kvs) = (if truthy tc then Some tc else None)"
  by (simp add: buildGoogleRequest_def Let_def attached_thinking_def has_field_def)

lemma translate_result:
  assumes "snd (translateOpenAIToGoogle axios_get mime_lookup sys this body) = Some req"
  shows "\<exists>gcs tc. resolveThinkingConfig sys body = Some tc
     \<and> js_prop req ''contents'' = JArr gcs
     \<and> attached_thinking req = (if truthy tc then Some tc else None)"
proof -
  obtain gcs si tc req1 where tc: "resolveThinkingConfig sys body = Some tc"
    and inj: "injectForcedTools sys (buildGoogleRequest body gcs si tc) = Some req1"
    and req: "req = js_set req1 ''safetySettings'' safetySettings"
    using assms
    by (auto simp: translateOpenAIToGoogle_def Let_def bind_eq_Some_conv)
  obtain kvs where b: "buildGoogleRequest body gcs si tc = JObj kvs"
    and notools: "js_prop (JObj kvs) ''tools'' = JUndef"
    and contents: "js_prop (JObj kvs) ''contents'' = JArr gcs"
    and thinking: "attached_thinking (JObj kvs) = (if truthy tc then Some tc else None)"
    using buildGoogleRequest_props [of body gcs si tc] by blast
  obtain kvs' where "injectForcedTools sys (JObj kvs) = Some (JObj kvs')"
    and same: "\<forall>k'. k' \<noteq> ''tools'' \<longrightarrow> js_prop (JObj kvs') k' = js_prop (JObj kvs) k'"
    using injectForcedTools_no_tools [OF notools, of sys] by blast
  then have req1: "req1 = JObj kvs'"
    using inj b by simp
  have gc: "js_prop req ''generationConfig'' = js_prop (JObj kvs) ''generationConfig''"
    and cs: "js_prop req ''contents'' = js_prop (JObj kvs) ''contents''"
    unfolding req req1 using same by (simp_all add: js_prop_js_set del: js_set.simps js_prop.simps)
  have "attached_thinking req = attached_thinking (JObj kvs)"
    unfolding attached_thinking_def gc ..
  then show ?thesis
    using tc contents thinking cs by (simp del: js_prop.simps)
qed


lemma tool_count_tools:
  "js_prop req ''tools'' = JArr ts \<Longrightarrow> tool_count k req = count_tools k ts"
  by (simp add: tool_count_def count_tools_def)

lemma tools_some_append:
  "tools_some k ts = Some True \<Longrightarrow> tools_some k (ts @ us) = Some True"
  by (induction ts) (auto simp: bind_eq_Some_conv split: if_splits)

lemma tools_some_push:
  "tools_some k ts = Some False \<Longrightarrow> tools_some k (ts @ [JObj [(k, JObj [])]]) = Some True"
  by (induction ts) (auto simp: js_get_def bind_eq_Some_conv split: if_splits)

lemma tools_some_count:
  "tools_some k ts = Some b \<Longrightarrow> (if b then 1 \<le> count_tools k ts else count_tools k ts = 0)"
proof (induction ts)
  case Nil
  then show ?case by (simp add: count_tools_def)
next
  case (Cons t ts)
  then show ?case
    by (cases "truthy (js_prop t k)")
       (auto simp: count_tools_def js_get_def bind_eq_Some_conv split: if_splits)
qed

lemma count_tools_push:
  "count_tools k' (ts @ [JObj [(k, JObj [])]]) = count_tools k' ts + (if k' = k then 1 else 0)"
  by (simp add: count_tools_def)

lemma forceTool_step:
  assumes "forceTool k (JObj kvs) = Some req1"
  shows "\<exists>ts ts1 kvs1. js_prop (JObj kvs) ''tools'' = JArr ts \<and> req1 = JObj kvs1
     \<and> js_prop req1 ''tools'' = JArr ts1
     \<and> tools_some k ts1 = Some True
     \<and> count_tools k ts1 = max 1 (count_tools k ts)
     \<and> (\<forall>k'. k' \<noteq> k \<longrightarrow> count_tools k' ts1 = count_tools k' ts
            \<and> (tools_some k' ts = Some True \<longrightarrow> tools_some k' ts1 = Some True))"
proof -
  obtain ts has where ts: "js_prop (JObj kvs) ''tools'' = JArr ts"
    and has: "tools_some k ts = Some has"
    and req1: "req1 = (if \<not> has then js_set (JObj kvs) ''tools'' (JArr (ts @ [JObj [(k, JObj [])]]))
                       else JObj kvs)"
    using assms
    by (cases "js_prop (JObj kvs) ''tools''")
       (auto simp: forceTool_def bind_eq_Some_conv simp del: js_prop.simps js_set.simps)
  show ?thesis
  proof (cases has)
    case True
    then have "req1 = JObj kvs" using req1 by simp
    moreover have "count_tools k ts = max 1 (count_tools k ts)"
      using tools_some_count [OF has] True by simp
    ultimately show ?thesis
      using ts has True by auto
  next
    case False
    let ?ts1 = "ts @ [JObj [(k, JObj [])]]"
    have r: "req1 = JObj (AList.update ''tools'' (JArr ?ts1) kvs)"
      using req1 False by simp
    have t1: "js_prop req1 ''tools'' = JArr ?ts1"
      unfolding r by (simp add: update_conv')
    have zero: "count_tools k ts = 0"
      using tools_some_count [OF has] False by simp
    have "tools_some k ?ts1 = Some True"
      using has False by (simp add: tools_some_push)
    moreover have "count_tools k ?ts1 = max 1 (count_tools k ts)"
      using zero by (simp add: count_tools_push)
    moreover have "\<forall>k'. k' \<noteq> k \<longrightarrow> count_tools k' ?ts1 = count_tools k' ts
            \<and> (tools_some k' ts = Some True \<longrightarrow> tools_some k' ?ts1 = Some True)"
      by (simp add: count_tools_push tools_some_append)
    ultimately show ?thesis
      using ts r t1 by blast
  qed
qed

lemma forceTool_again:
  "js_prop req ''tools'' = JArr ts \<Longrightarrow> tools_some k ts = Some True \<Longrightarrow>
   forceTool k req = Some req"
  by (simp add: forceTool_def)


lemma force_opt:
  assumes "(if flag then forceTool k (JObj kvs) else Some (JObj kvs)) = Some req1"
    and "js_prop (JObj kvs) ''tools'' = JArr ts"
  shows "\<exists>ts1 kvs1. req1 = JObj kvs1 \<and> js_prop req1 ''tools'' = JArr ts1
     \<and> (flag \<longrightarrow> tools_some k ts1 = Some True)
     \<and> count_tools k ts1 = (if flag then max 1 (count_tools k ts) else count_tools k ts)
     \<and> (\<forall>k'. k' \<noteq> k \<longrightarrow> count_tools k' ts1 = count_tools k' ts
            \<and> (tools_some k' ts = Some True \<longrightarrow> tools_some k' ts1 = Some True))"
proof (cases flag)
  case True
  then have "forceTool k (JObj kvs) = Some req1"
    using assms(1) by simp
  from forceTool_step [OF this] assms(2) True show ?thesis
    by (auto simp del: js_prop.simps)
next
  case False
  then show ?thesis
    using assms by (auto simp del: js_prop.simps)
qed

lemma tool_count_req0:
  assumes "js_prop (if \<not> truthy (js_prop (JObj kvs) ''tools'')
                    then js_set (JObj kvs) ''tools'' (JArr []) else JObj kvs) ''tools'' = JArr ts"
  shows "tool_count k (JObj kvs) = count_tools k ts"
proof (cases "truthy (js_prop (JObj kvs) ''tools'')")
  case True
  then show ?thesis
    using assms by (simp add: tool_count_def count_tools_def del: js_prop.simps)
next
  case False
  then have "ts = []"
    using assms by (simp add: update_conv')
  moreover have "elems (js_prop (JObj kvs) ''tools'') = []"
    using False by (cases "js_prop (JObj kvs) ''tools''") (simp_all del: js_prop.simps)
  ultimately show ?thesis
    by (simp add: tool_count_def count_tools_def del: js_prop.simps)
qed

text \<open>
  On any request object the block returns on, forcing the tools a second time changes
  nothing, and the number of tools with \<open>googleSearch\<close> (with \<open>urlContext\<close>) afterwards
  is the number before, or one if there was none and the flag is on.
\<close>

lemma injectForcedTools_again:
  assumes inj: "injectForcedTools sys (JObj kvs) = Some req'"
  shows "injectForcedTools sys req' = Some req'
    \<and> tool_count ''googleSearch'' req'
        = (if forceWebSearch sys then max 1 (tool_count ''googleSearch'' (JObj kvs))
           else tool_count ''googleSearch'' (JObj kvs))
    \<and> tool_count ''urlContext'' req'
        = (if forceUrlContext sys then max 1 (tool_count ''urlContext'' (JObj kvs))
           else tool_count ''urlContext'' (JObj kvs))"
proof (cases "forceWebSearch sys \<or> forceUrlContext sys")
  case False
  then show ?thesis
    using inj by (simp add: injectForcedTools_def)
next
  case flags: True
  define req0 where "req0 = (if \<not> truthy (js_prop (JObj kvs) ''tools'')
                    then js_set (JObj kvs) ''tools'' (JArr []) else JObj kvs)"
  obtain kvs0 where req0: "req0 = JObj kvs0"
    by (cases "truthy (js_prop (JObj kvs) ''tools'')") (simp_all add: req0_def)
  obtain req1 where step1: "(if forceWebSearch sys then forceTool ''googleSearch'' (JObj kvs0)
        else Some (JObj kvs0)) = Some req1"
    and step2: "(if forceUrlContext sys then forceTool ''urlContext'' req1 else Some req1)
        = Some req'"
    using inj flags
    by (auto simp: injectForcedTools_def Let_def req0_def [symmetric] req0 bind_eq_Some_conv
        simp del: js_prop.simps js_set.simps)
  obtain ts0 where ts0: "js_prop (JObj kvs0) ''tools'' = JArr ts0"
  proof (cases "forceWebSearch sys")
    case True
    then have "forceTool ''googleSearch'' (JObj kvs0) = Some req1"
      using step1 by simp
    from forceTool_step [OF this] that show ?thesis by blast
  next
    case False
    then have "req1 = JObj kvs0" and "forceTool ''urlContext'' (JObj kvs0) = Some req'"
      using step1 step2 flags by simp_all
    from forceTool_step [OF this(2)] that show ?thesis by blast
  qed
  have before: "tool_count k (JObj kvs) = count_tools k ts0" for k
  proof -
    have "js_prop req0 ''tools'' = JArr ts0"
      using ts0 by (simp only: req0)
    then show ?thesis
      unfolding req0_def by (rule tool_count_req0)
  qed
  obtain ts1 kvs1 where req1: "req1 = JObj kvs1" and ts1: "js_prop req1 ''tools'' = JArr ts1"
    and some1: "forceWebSearch sys \<longrightarrow> tools_some ''googleSearch'' ts1 = Some True"
    and count1: "count_tools ''googleSearch'' ts1
        = (if forceWebSearch sys then max 1 (count_tools ''googleSearch'' ts0)
           else count_tools ''googleSearch'' ts0)"
    and other1: "count_tools ''urlContext'' ts1 = count_tools ''urlContext'' ts0"
    using force_opt [OF step1 ts0] by auto
  obtain ts2 kvs2 where req2: "req' = JObj kvs2" and ts2: "js_prop req' ''tools'' = JArr ts2"
    and some2: "forceUrlContext sys \<longrightarrow> tools_some ''urlContext'' ts2 = Some True"
    and count2: "count_tools ''urlContext'' ts2
        = (if forceUrlContext sys then max 1 (count_tools ''urlContext'' ts1)
           else count_tools ''urlContext'' ts1)"
    and other2: "count_tools ''googleSearch'' ts2 = count_tools ''googleSearch'' ts1"
      "tools_some ''googleSearch'' ts1 = Some True
        \<longrightarrow> tools_some ''googleSearch'' ts2 = Some True"
    using force_opt [OF step2 [unfolded req1] ts1 [unfolded req1]] by auto
  have again1: "(if forceWebSearch sys then forceTool ''googleSearch'' req' else Some req')
      = Some req'"
    using some1 other2(2) forceTool_again [OF ts2] by simp
  have again2: "(if forceUrlContext sys then forceTool ''urlContext'' req' else Some req')
      = Some req'"
    using some2 forceTool_again [OF ts2] by simp
  have "injectForcedTools sys req' = Some req'"
    using flags ts2 again1 again2
    by (simp add: injectForcedTools_def Let_def del: js_prop.simps)
  moreover have "tool_count ''googleSearch'' req' = count_tools ''googleSearch'' ts2"
    and "tool_count ''urlContext'' req' = count_tools ''urlContext'' ts2"
    using ts2 by (simp_all add: tool_count_tools)
  ultimately show ?thesis
    using count1 count2 other1 other2(1) before by simp
qed

text \<open>
  C5. The block that forces the tools runs on the request the translation has built,
  which has no \<open>tools\<close> yet, whatever the request body, the contents, the system
  instruction and the thinking configuration are. On it the block returns; running the
  block a second time on its result gives that result again; and in the result the
  number of tools with \<open>googleSearch\<close> is one if web search is forced and none
  otherwise, and likewise for \<open>urlContext\<close>: each descriptor appears at most once.
\<close>

theorem forced_tools_idempotent:
  "\<exists>req1. injectForcedTools sys (buildGoogleRequest body gcs si tc) = Some req1
     \<and> injectForcedTools sys req1 = Some req1
     \<and> tool_count ''googleSearch'' req1 = (if forceWebSearch sys then 1 else 0)
     \<and> tool_count ''urlContext'' req1 = (if forceUrlContext sys then 1 else 0)
     \<and> tool_count ''googleSearch'' req1 \<le> 1 \<and> tool_count ''urlContext'' req1 \<le> 1"
proof -
  obtain kvs where b: "buildGoogleRequest body gcs si tc = JObj kvs"
    and notools: "js_prop (JObj kvs) ''tools'' = JUndef"
    using buildGoogleRequest_props [of body gcs si tc] by blast
  obtain kvs' where inj: "injectForcedTools sys (JObj kvs) = Some (JObj kvs')"
    using injectForcedTools_no_tools [OF notools, of sys] by blast
  have none: "tool_count k (JObj kvs) = 0" for k
    using notools by (simp add: tool_count_def del: js_prop.simps)
  show ?thesis
    using injectForcedTools_again [OF inj] inj
    by (simp add: b none del: js_prop.simps)
qed


lemma text_only_filter: "text_only ms \<Longrightarrow> text_only (filter P ms)"
  by (induction ms) (simp_all add: text_only_def)

lemma text_only_not_nullish: "text_only ms \<Longrightarrow> list_all (\<lambda>m. \<not> nullish m) ms"
  by (induction ms) (auto simp: text_only_def dest: is_str_prop_not_nullish)

lemma those_strings:
  "list_all is_str vs \<Longrightarrow>
   \<exists>strs. those (map (\<lambda>x. if nullish x then Some [] else js_to_string x) vs) = Some strs"
proof (induction vs)
  case Nil
  then show ?case by simp
next
  case (Cons v vs)
  then obtain str strs where "v = JStr str"
    and "those (map (\<lambda>x. if nullish x then Some [] else js_to_string x) vs) = Some strs"
    by (cases v) auto
  then show ?case by simp
qed

lemma array_join_strings:
  "list_all is_str vs \<Longrightarrow> \<exists>str. array_join vs sep = Some str"
  using those_strings [of vs] by (auto simp: array_join_def)

lemma text_only_contents:
  "text_only ms \<Longrightarrow> list_all is_str (map (\<lambda>msg. js_prop msg ''content'') (filter P ms))"
  by (induction ms) (simp_all add: text_only_def)

lemma resolveThinkingConfig_returns:
  "prints (reasoning_effort body) \<Longrightarrow> \<exists>tc. resolveThinkingConfig sys body = Some tc"
  by (auto simp: resolveThinkingConfig_def reasoning_effort_def prints_def Let_def)

lemma translate_text_only:
  assumes msgs: "js_get openaiBody ''messages'' = Some (JArr ms)" and txt_only: "text_only ms"
    and effort: "prints (reasoning_effort openaiBody)"
  shows "\<exists>req. snd (translateOpenAIToGoogle axios_get mime_lookup sys this openaiBody) = Some req
     \<and> js_prop req ''contents'' = JArr (map text_entry (filter non_system ms))"
proof -
  let ?gcs = "map text_entry (filter non_system ms)"
  have nn: "list_all (\<lambda>m. \<not> nullish m) ms"
    using txt_only by (rule text_only_not_nullish)
  have conv: "convertMessages axios_get mime_lookup (filter non_system ms) [] = Some ?gcs"
    using convertMessages_text [OF text_only_filter [OF txt_only], of axios_get mime_lookup non_system "[]"]
    by simp
  have nonsys: "filter (\<lambda>m. js_prop m ''role'' \<noteq> JStr ''system'') ms = filter non_system ms"
    by (rule filter_cong) (simp_all add: non_system_def)
  obtain tc where tc: "resolveThinkingConfig sys openaiBody = Some tc"
    using resolveThinkingConfig_returns [OF effort] by blast
  obtain str where sysc: "array_join (map (\<lambda>msg. js_prop msg ''content'')
        (filter (\<lambda>m. js_prop m ''role'' = JStr ''system'') ms)) [CHR 0x0A] = Some str"
    using array_join_strings [OF text_only_contents [OF txt_only]] by blast
  let ?sys = "filter (\<lambda>m. js_prop m ''role'' = JStr ''system'') ms"
  obtain si where si: "(if ?sys \<noteq> [] then
         array_join (map (\<lambda>msg. js_prop msg ''content'') ?sys) [CHR 0x0A]
           \<bind> (\<lambda>systemContent.
                 Some (JObj [(''parts'', JArr [JObj [(''text'', JStr systemContent)]]),
                             (''role'', JStr ''system'')]))
       else Some JNull) = Some si"
    by (cases "?sys = []") (simp_all add: sysc)
  have run: "snd (translateOpenAIToGoogle axios_get mime_lookup sys this openaiBody)
      = injectForcedTools sys (buildGoogleRequest openaiBody ?gcs si tc)
          \<bind> (\<lambda>googleRequest. Some (js_set googleRequest ''safetySettings'' safetySettings))"
    by (simp add: translateOpenAIToGoogle_def msgs filter_role_total [OF nn] nonsys conv tc si
        Let_def)
  obtain kvs where b: "buildGoogleRequest openaiBody ?gcs si tc = JObj kvs"
    and notools: "js_prop (JObj kvs) ''tools'' = JUndef"
    and contents: "js_prop (JObj kvs) ''contents'' = JArr ?gcs"
    using buildGoogleRequest_props [of openaiBody ?gcs si tc] by blast
  obtain kvs' where inj: "injectForcedTools sys (JObj kvs) = Some (JObj kvs')"
    and same: "\<forall>k'. k' \<noteq> ''tools'' \<longrightarrow> js_prop (JObj kvs') k' = js_prop (JObj kvs) k'"
    using injectForcedTools_no_tools [OF notools, of sys] by blast
  let ?req = "js_set (JObj kvs') ''safetySettings'' safetySettings"
  have result: "snd (translateOpenAIToGoogle axios_get mime_lookup sys this openaiBody) = Some ?req"
    by (simp add: run b inj del: js_set.simps)
  have cs: "js_prop ?req ''contents'' = JArr ?gcs"
    using same contents by (simp add: js_prop_js_set del: js_set.simps js_prop.simps)
  show ?thesis
    using result cs by blast
qed

text \<open>
  C3. For a valid request, one whose \<open>messages\<close> is an array of messages that all have
  string content and whose reasoning effort (a string, when given) converts to a
  string, the translation returns a request whose \<open>contents\<close> has exactly one entry
  for each message whose role is not \<open>system\<close>, in the order of the messages: the
  entry's only part is the message's text, and its role is \<open>model\<close> for the role
  \<open>assistant\<close> and \<open>user\<close> for any other.
\<close>

theorem outbound_text_contents:
  assumes "js_get openaiBody ''messages'' = Some (JArr ms)" and "text_only ms"
    and "prints (reasoning_effort openaiBody)"
  shows "\<exists>req. snd (translateOpenAIToGoogle axios_get mime_lookup sys this openaiBody) = Some req
     \<and> js_prop req ''contents'' = JArr (map text_entry (filter non_system ms))
     \<and> length (elems (js_prop req ''contents'')) = length (filter non_system ms)
     \<and> map (\<lambda>entry. js_prop entry ''role'') (elems (js_prop req ''contents''))
         = map (\<lambda>m. JStr (google_role m)) (filter non_system ms)"
proof -
  obtain req where run: "snd (translateOpenAIToGoogle axios_get mime_lookup sys this openaiBody)
      = Some req"
    and cs: "js_prop req ''contents'' = JArr (map text_entry (filter non_system ms))"
    using translate_text_only [OF assms] by blast
  have "map (\<lambda>entry. js_prop entry ''role'') (map text_entry (filter non_system ms))
      = map (\<lambda>m. JStr (google_role m)) (filter non_system ms)"
    by (simp add: text_entry_def)
  then show ?thesis
    using run cs by (intro exI [of _ req]) simp
qed

lemma find_raw:
  "find truthy (thinking_config_spellings body)
     = (if truthy (rawThinkingConfig body (js_or (js_prop body ''extra_body'') (JObj [])))
        then Some (rawThinkingConfig body (js_or (js_prop body ''extra_body'') (JObj [])))
        else None)"
  by (simp add: thinking_config_spellings_def rawThinkingConfig_def js_or_def Let_def)

lemma resolveThinkingConfig_cases:
  "resolveThinkingConfig sys body = Some tc \<Longrightarrow>
   (if truthy tc then Some tc else None)
   = (case find truthy (thinking_config_spellings body) of
        Some raw \<Rightarrow> Some (explicit_thinking raw)
      | None \<Rightarrow>
          if truthy (reasoning_effort body) then Some (JObj [(''includeThoughts'', JBool True)])
          else if forceThinking sys then Some (JObj [(''includeThoughts'', JBool True)])
          else None)"
  unfolding find_raw
  by (auto simp: resolveThinkingConfig_def explicit_thinking_def reasoning_effort_def Let_def
      bind_eq_Some_conv split: if_splits)

text \<open>
  C4. The \<open>thinkingConfig\<close> of the outbound \<open>generationConfig\<close> is resolved by strict
  priority. If one of the accepted spellings holds an explicit configuration (the first
  truthy one, in the order the converter consults them), that object alone determines
  it; otherwise a truthy \<open>reasoning_effort\<close> (of the body or of \<open>extra_body\<close>) forces
  \<open>includeThoughts: true\<close>; otherwise the server's force-thinking flag injects it;
  otherwise no \<open>thinkingConfig\<close> is attached.
\<close>

theorem thinking_config_priority:
  assumes "snd (translateOpenAIToGoogle axios_get mime_lookup sys this openaiBody) = Some req"
  shows "attached_thinking req
     = (case find truthy (thinking_config_spellings openaiBody) of
          Some raw \<Rightarrow> Some (explicit_thinking raw)
        | None \<Rightarrow>
            if truthy (reasoning_effort openaiBody)
            then Some (JObj [(''includeThoughts'', JBool True)])
            else if forceThinking sys then Some (JObj [(''includeThoughts'', JBool True)])
            else None)"
proof -
  obtain tc where "resolveThinkingConfig sys openaiBody = Some tc"
    and "attached_thinking req = (if truthy tc then Some tc else None)"
    using translate_result [OF assms] by blast
  then show ?thesis
    using resolveThinkingConfig_cases [of sys openaiBody tc] by simp
qed


theorem outbound_text_contents_witness:
  "\<exists>req. snd (translateOpenAIToGoogle (\<lambda>url. None) (\<lambda>url. JBool False)
          \<lparr>forceThinking = True, forceWebSearch = True, forceUrlContext = False\<rparr>
          \<lparr>streamUsage = JNull\<rparr>
          (JObj [(''model'', JStr ''x''),
             (''messages'', JArr
                [JObj [(''role'', JStr ''system''), (''content'', JStr ''be brief'')],
                 JObj [(''role'', JStr ''user''), (''content'', JStr ''hi'')],
                 JObj [(''role'', JStr ''assistant''), (''content'', JStr ''hello'')],
                 JObj [(''role'', JStr ''tool''), (''content'', JStr ''42'')]]),
             (''reasoning_effort'', JStr ''low''),
             (''stream'', JBool False)])) = Some req
     \<and> js_prop req ''contents'' = JArr
          [JObj [(''parts'', JArr [JObj [(''text'', JStr ''hi'')]]), (''role'', JStr ''user'')],
           JObj [(''parts'', JArr [JObj [(''text'', JStr ''hello'')]]), (''role'', JStr ''model'')],
           JObj [(''parts'', JArr [JObj [(''text'', JStr ''42'')]]), (''role'', JStr ''user'')]]"
proof -
  let ?body = "JObj [(''model'', JStr ''x''),
             (''messages'', JArr
                [JObj [(''role'', JStr ''system''), (''content'', JStr ''be brief'')],
                 JObj [(''role'', JStr ''user''), (''content'', JStr ''hi'')],
                 JObj [(''role'', JStr ''assistant''), (''content'', JStr ''hello'')],
                 JObj [(''role'', JStr ''tool''), (''content'', JStr ''42'')]]),
             (''reasoning_effort'', JStr ''low''),
             (''stream'', JBool False)]"
  let ?ms = "[JObj [(''role'', JStr ''system''), (''content'', JStr ''be brief'')],
                 JObj [(''role'', JStr ''user''), (''content'', JStr ''hi'')],
                 JObj [(''role'', JStr ''assistant''), (''content'', JStr ''hello'')],
                 JObj [(''role'', JStr ''tool''), (''content'', JStr ''42'')]]"
  have msgs: "js_get ?body ''messages'' = Some (JArr ?ms)"
    by (simp add: js_get_def)
  have txt_only: "text_only ?ms"
    by (simp add: text_only_def)
  have effort: "prints (reasoning_effort ?body)"
    by (simp add: prints_def reasoning_effort_def js_or_def)
  have entries: "map text_entry (filter non_system ?ms) =
          [JObj [(''parts'', JArr [JObj [(''text'', JStr ''hi'')]]), (''role'', JStr ''user'')],
           JObj [(''parts'', JArr [JObj [(''text'', JStr ''hello'')]]), (''role'', JStr ''model'')],
           JObj [(''parts'', JArr [JObj [(''text'', JStr ''42'')]]), (''role'', JStr ''user'')]]"
    by (simp add: non_system_def text_entry_def google_role_def)
  obtain req where "snd (translateOpenAIToGoogle (\<lambda>url. None) (\<lambda>url. JBool False)
          \<lparr>forceThinking = True, forceWebSearch = True, forceUrlContext = False\<rparr>
          \<lparr>streamUsage = JNull\<rparr> ?body) = Some req"
    and "js_prop req ''contents'' = JArr (map text_entry (filter non_system ?ms))"
    using outbound_text_contents [OF msgs txt_only effort] by blast
  then show ?thesis
    unfolding entries by blast
qed

theorem thinking_config_priority_witness:
  "\<exists>req. snd (translateOpenAIToGoogle (\<lambda>url. None) (\<lambda>url. JBool False)
          \<lparr>forceThinking = True, forceWebSearch = True, forceUrlContext = False\<rparr>
          \<lparr>streamUsage = JNull\<rparr>
          (JObj [(''messages'', JArr [JObj [(''role'', JStr ''user''), (''content'', JStr ''hi'')]]),
             (''reasoning_effort'', JStr ''high''),
             (''extra_body'', JObj [(''google'', JObj [(''thinking_config'',
                 JObj [(''include_thoughts'', JBool False), (''thinking_budget'', JNum 64)])])])])) = Some req
     \<and> attached_thinking req = Some (JObj [(''includeThoughts'', JBool False)])"
proof -
  let ?body = "JObj [(''messages'', JArr [JObj [(''role'', JStr ''user''), (''content'', JStr ''hi'')]]),
             (''reasoning_effort'', JStr ''high''),
             (''extra_body'', JObj [(''google'', JObj [(''thinking_config'',
                 JObj [(''include_thoughts'', JBool False), (''thinking_budget'', JNum 64)])])])]"
  have msgs: "js_get ?body ''messages''
      = Some (JArr [JObj [(''role'', JStr ''user''), (''content'', JStr ''hi'')]])"
    by (simp add: js_get_def)
  have txt_only: "text_only [JObj [(''role'', JStr ''user''), (''content'', JStr ''hi'')]]"
    by (simp add: text_only_def)
  have effort: "prints (reasoning_effort ?body)"
    by (simp add: prints_def reasoning_effort_def js_or_def)
  obtain req where run: "snd (translateOpenAIToGoogle (\<lambda>url. None) (\<lambda>url. JBool False)
          \<lparr>forceThinking = True, forceWebSearch = True, forceUrlContext = False\<rparr>
          \<lparr>streamUsage = JNull\<rparr> ?body) = Some req"
    using translate_text_only [OF msgs txt_only effort] by blast
  have "attached_thinking req = Some (JObj [(''includeThoughts'', JBool False)])"
    using thinking_config_priority [OF run]
    by (simp add: thinking_config_spellings_def js_or_def js_opt_def explicit_thinking_def
        Let_def)
  then show ?thesis
    using run by blast
qed

section \<open>Properties of the connection registry\<close>

lemma handleIncomingMessage_try_unrouted:
  assumes "JSON_parse messageData = None
     \<or> (\<exists>parsedMessage. JSON_parse messageData = Some parsedMessage
           \<and> queue_of r (js_prop parsedMessage ''request_id'') = None)"
  shows "handleIncomingMessage_try JSON_parse r messageData = None
     \<or> handleIncomingMessage_try JSON_parse r messageData = Some r"
proof (cases "JSON_parse messageData")
  case None
  then show ?thesis
    by (simp add: handleIncomingMessage_try_def)
next
  case (Some parsedMessage)
  then have unknown: "queue_of r (js_prop parsedMessage ''request_id'') = None"
    using assms by auto
  show ?thesis
  proof (cases "nullish parsedMessage")
    case True
    then show ?thesis
      using Some by (simp add: handleIncomingMessage_try_def js_get_def)
  next
    case False
    then show ?thesis
      using Some unknown
      by (cases "js_to_string (js_prop parsedMessage ''request_id'')")
         (simp_all add: handleIncomingMessage_try_def js_get_def)
  qed
qed

text \<open>
  C8. A message that \<open>JSON.parse\<close> rejects, and a message whose \<open>request_id\<close> has no
  queue in the map (also one with no \<open>request_id\<close>, and the message \<open>null\<close>), leave the
  registry as it was: \<open>_handleIncomingMessage\<close> returns, nothing is enqueued on any
  queue, the map and the set of connections are the same.
\<close>

theorem unrouted_message_dropped:
  assumes "JSON_parse messageData = None
     \<or> (\<exists>parsedMessage. JSON_parse messageData = Some parsedMessage
           \<and> queue_of r (js_prop parsedMessage ''request_id'') = None)"
  shows "handleIncomingMessage JSON_parse r messageData = Some r"
  using handleIncomingMessage_try_unrouted [of JSON_parse messageData r] assms
  by (auto simp: handleIncomingMessage_def)

lemma known_request_routed:
  assumes "JSON_parse messageData = Some parsedMessage"
    and "js_prop parsedMessage ''request_id'' = JStr requestId"
    and "requestId \<noteq> []"
    and "map_of (messageQueues r) requestId = Some queue"
    and "routeMessage r parsedMessage queue = Some r'"
  shows "handleIncomingMessage JSON_parse r messageData = Some r'"
proof -
  have "\<not> nullish parsedMessage"
    using assms(2) by (cases parsedMessage) simp_all
  then show ?thesis
    using assms
    by (simp add: handleIncomingMessage_def handleIncomingMessage_try_def js_get_def
        queue_of_def)
qed

lemma example_queue_map:
  "messageQueues (snd (createMessageQueue
      (fst (addConnection new_registry 7 local_client)) ''req-1''))
   = [(''req-1'', 0)]"
  by (simp add: createMessageQueue_def addConnection_def new_registry_def js_get_def
      local_client_def)

theorem unrouted_message_dropped_witness:
  \<open>handleIncomingMessage
      (parse_table [(''{"request_id":"req-2","event_type":"chunk","data":"x"}'',
         JObj [(''request_id'', JStr ''req-2''), (''event_type'', JStr ''chunk''),
               (''data'', JStr ''x'')])])
      (snd (createMessageQueue (fst (addConnection new_registry 7 local_client)) ''req-1''))
      ''{"request_id":"req-2","event_type":"chunk","data":"x"}''
    = Some (snd (createMessageQueue (fst (addConnection new_registry 7 local_client)) ''req-1''))
   \<and> handleIncomingMessage
      (parse_table [(''{"request_id":"req-2","event_type":"chunk","data":"x"}'',
         JObj [(''request_id'', JStr ''req-2''), (''event_type'', JStr ''chunk''),
               (''data'', JStr ''x'')])])
      (snd (createMessageQueue (fst (addConnection new_registry 7 local_client)) ''req-1''))
      ''{"request_id":''
    = Some (snd (createMessageQueue (fst (addConnection new_registry 7 local_client)) ''req-1''))\<close>
proof -
  let ?P = \<open>parse_table [(''{"request_id":"req-2","event_type":"chunk","data":"x"}'',
         JObj [(''request_id'', JStr ''req-2''), (''event_type'', JStr ''chunk''),
               (''data'', JStr ''x'')])]\<close>
  let ?r = "snd (createMessageQueue (fst (addConnection new_registry 7 local_client)) ''req-1'')"
  let ?known = \<open>''{"request_id":"req-2","event_type":"chunk","data":"x"}''\<close>
  let ?broken = \<open>''{"request_id":''\<close>
  have unknown: "?P ?known = None
     \<or> (\<exists>parsedMessage. ?P ?known = Some parsedMessage
           \<and> queue_of ?r (js_prop parsedMessage ''request_id'') = None)"
    by (simp add: parse_table_def queue_of_def example_queue_map)
  have malformed: "?P ?broken = None
     \<or> (\<exists>parsedMessage. ?P ?broken = Some parsedMessage
           \<and> queue_of ?r (js_prop parsedMessage ''request_id'') = None)"
    by (simp add: parse_table_def)
  show ?thesis
    using unrouted_message_dropped [of ?P ?known ?r, OF unknown]
      unrouted_message_dropped [of ?P ?broken ?r, OF malformed]
    by (rule conjI)
qed

text \<open>
  C9, at two runs of the registry the code does not keep it on. The callback of the grace
  timer leaves the timer's handle in \<open>reconnectGraceTimer\<close>, and \<open>_removeConnection\<close>
  overwrites the handle without clearing the timer it held.

  In the first run one websocket connects and closes, and the grace timer 0 fires: the
  queue of request \<open>a\<close> is closed, the map is emptied and \<open>connectionLost\<close> is emitted,
  while the handle still holds timer 0. When the next websocket connects,
  \<open>addConnection\<close> finds the handle set and calls \<open>clearTimeout\<close> on timer 0 (logging
  that it cancels the disconnect handling): the timer that has fired is cancelled too.

  In the second run two websockets are connected and close one after the other, which
  arms the timers 0 and 1, the handle holding 1. Websocket 9 connects before either
  fires, and \<open>clearTimeout\<close> is called on timer 1 only. Timer 0 then fires: the queue of
  request \<open>a\<close> is closed and removed and \<open>connectionLost\<close> is emitted while 9 is
  connected.
\<close>

theorem grace_timer_fired_and_cancelled:
  "(\<exists>r1 r2.
      run (parse_table []) new_registry
        [Connect 7 local_client, CreateQueue ''a'', Disconnect 7, Timeout 0] = Some r1
      \<and> connections r1 = [] \<and> fired r1 = {0} \<and> cancelled r1 = {}
      \<and> messageQueues r1 = [] \<and> map_option closed (heap r1 0) = Some True
      \<and> emitted r1 = [ConnectionAdded 7, ConnectionRemoved 7, ConnectionLost]
      \<and> reconnectGraceTimer r1 = Some 0
      \<and> fire (parse_table []) r1 (Connect 8 local_client) = Some r2
      \<and> fired r2 = {0} \<and> cancelled r2 = {0} \<and> reconnectGraceTimer r2 = None)
   \<and> (\<exists>r. run (parse_table []) new_registry
          [Connect 7 local_client, Connect 8 local_client, CreateQueue ''a'', Disconnect 7,
           Disconnect 8, Connect 9 local_client, Timeout 0] = Some r
      \<and> connections r = [9] \<and> fired r = {0} \<and> cancelled r = {1}
      \<and> messageQueues r = [] \<and> map_option closed (heap r 0) = Some True
      \<and> emitted r = [ConnectionAdded 7, ConnectionAdded 8, ConnectionRemoved 7,
           ConnectionRemoved 8, ConnectionAdded 9, ConnectionLost])"
  by (simp add: new_registry_def addConnection_def createMessageQueue_def
      removeConnection_def setTimeout_def clearTimeout_def graceTimeout_def Let_def
      new_queue_def close_queue_def js_get_def local_client_def)

end
